theory Spec2Isabelle
  imports Main "HOL-Library.Word" "HOL-Library.Sublist"
begin

section \<open>FORT validator: TAL validation pipeline and RTR PDU handlers\<close>

text \<open>
  A shallow embedding of \<^verbatim>\<open>src/rtr/pdu_handler.c\<close> and \<^verbatim>\<open>src/object/tal.c\<close>.
  C \<^verbatim>\<open>int\<close> values (error codes, file descriptors) are \<open>int\<close>: the code only compares
  and negates them.  Fixed-width protocol fields are words.  What a function does to the
  outside world (PDUs written, sockets closed, threads joined, tables destroyed) is
  returned as an explicit log or state next to its result.
\<close>

type_synonym u8 = "8 word"
type_synonym u16 = "16 word"
type_synonym u32 = "32 word"

subsection \<open>Error numbers and how a C function ends\<close>

text \<open>The \<^verbatim>\<open>errno.h\<close> values used by the two files (Linux numbering).\<close>

definition ENOENT :: int where "ENOENT = 2"
definition EINTR :: int where "EINTR = 4"
definition EINVAL :: int where "EINVAL = 22"

text \<open>
  \<^verbatim>\<open>ENSURE_NEGATIVE\<close> comes from \<^verbatim>\<open>common.h\<close>, which is not among the sources at hand;
  it is the macro that maps an error code to its negative form.
\<close>

definition ENSURE_NEGATIVE :: "int \<Rightarrow> int" where
  "ENSURE_NEGATIVE error = (if error < 0 then error else - error)"

text \<open>
  A call either returns a value, or the process ends inside it: with an exit status, or in
  \<^verbatim>\<open>pr_crit()\<close>, which logs a programming error and aborts.
\<close>

datatype 'a outcome = Returned 'a | Exited int | Critical string

text \<open>\<^verbatim>\<open>err(eval, ...)\<close> of \<^verbatim>\<open>err.h\<close> prints its message and calls \<^verbatim>\<open>exit(eval)\<close>; the exit
  status of the process is the low byte of \<open>eval\<close>, so \<^verbatim>\<open>err(-EINVAL, ...)\<close> ends with 234.\<close>

definition err :: "int \<Rightarrow> 'a outcome" where
  "err eval = Exited (eval mod 256)"

subsection \<open>RTR: PDUs, the server state and the outbound log\<close>

record pdu_header =
  protocol_version :: u8
  pdu_type :: u8
  session_id :: u16
  pdu_length :: u32

record serial_query_pdu =
  header :: pdu_header
  serial_number :: u32

text \<open>
  \<^verbatim>\<open>struct sender_common\<close> as \<^verbatim>\<open>init_sender_common\<close> fills it: the two serials are
  pointers in the source and may be \<^verbatim>\<open>NULL\<close>.
\<close>

record sender_common =
  c_fd :: int
  c_version :: u8
  c_session_id :: u16
  start_serial :: "u32 option"
  end_serial :: "u32 option"

definition init_sender_common ::
  "int \<Rightarrow> u8 \<Rightarrow> u16 \<Rightarrow> u32 option \<Rightarrow> u32 option \<Rightarrow> sender_common" where
  "init_sender_common fd version sid start_s end_s =
     \<lparr>c_fd = fd, c_version = version, c_session_id = sid,
      start_serial = start_s, end_serial = end_s\<rparr>"

text \<open>The answers of \<^verbatim>\<open>deltas_db_status\<close>; the source switches on an \<^verbatim>\<open>int\<close>, so a
  value outside the four enumerators is kept as \<open>STATUS_OTHER\<close>.\<close>

datatype delta_status =
  NO_DATA_AVAILABLE | DIFF_UNDETERMINED | DIFF_AVAILABLE | NO_DIFF | STATUS_OTHER int

text \<open>Everything a handler does to the outside, in the order it does it.\<close>

datatype rtr_event =
    DeltasDbStatus "u32 option"
  | ErrorReportPdu int u8 u16 "pdu_header option" "string option"
  | CacheResponsePdu sender_common
  | PayloadPdus sender_common
  | EndOfDataPdu sender_common
  | CacheResetPdu sender_common
  | CloseFd int

text \<open>
  The collaborators of the handlers: the delta store (\<^verbatim>\<open>vrps.h\<close>) and the result each
  write to the socket has (\<^verbatim>\<open>pdu_sender.h\<close>; 0 is success).  Of the delta store the
  handlers see the session id, the last serial, whether it holds data, and its answer
  about a requested serial.
\<close>

record rtr_env =
  get_current_session_id :: "u8 \<Rightarrow> u16"
  get_last_serial_number :: u32
  db_has_data :: bool
  serial_status :: "u32 \<Rightarrow> delta_status"
  send_result :: "rtr_event \<Rightarrow> int"

text \<open>Modelled from the spec: \<^verbatim>\<open>deltas_db_status\<close> of the missing \<^verbatim>\<open>vrps.c\<close>.  About a
  requested serial the store answers with one of its statuses, which is left to the
  environment.  With no serial requested (\<^verbatim>\<open>NULL\<close>, the Reset Query) the statuses that
  compare a serial do not apply: the answer is \<open>NO_DATA_AVAILABLE\<close> when no publication has
  occurred and \<open>DIFF_AVAILABLE\<close>, the full snapshot, otherwise; these are the two answers
  the handler of the Reset Query serves, every other one being its unreachable default.\<close>

definition deltas_db_status :: "rtr_env \<Rightarrow> u32 option \<Rightarrow> delta_status" where
  "deltas_db_status env serial =
     (case serial of
        None \<Rightarrow> (if db_has_data env then DIFF_AVAILABLE else NO_DATA_AVAILABLE)
      | Some s \<Rightarrow> serial_status env s)"

definition is_pdu :: "rtr_event \<Rightarrow> bool" where
  "is_pdu ev = (case ev of DeltasDbStatus _ \<Rightarrow> False | CloseFd _ \<Rightarrow> False | _ \<Rightarrow> True)"

definition outbound :: "rtr_event list \<Rightarrow> rtr_event list" where
  "outbound log = filter is_pdu log"

text \<open>Modelled from the spec: the Error Report codes of \<^verbatim>\<open>err_pdu.h\<close>, which is missing;
  the numbers are those of the table of error codes (RFC 8210, section 10).\<close>

definition ERR_PDU_CORRUPT_DATA :: u16 where "ERR_PDU_CORRUPT_DATA = 0"
definition ERR_PDU_NO_DATA_AVAILABLE :: u16 where "ERR_PDU_NO_DATA_AVAILABLE = 2"
definition ERR_PDU_UNSUP_PDU_TYPE :: u16 where "ERR_PDU_UNSUP_PDU_TYPE = 5"

text \<open>Modelled from the spec: \<^verbatim>\<open>err_pdu_is_fatal\<close> of the missing \<^verbatim>\<open>err_pdu.c\<close>;
  every error code is fatal except No Data Available.\<close>

definition err_pdu_is_fatal :: "u16 \<Rightarrow> bool" where
  "err_pdu_is_fatal code = (code \<noteq> ERR_PDU_NO_DATA_AVAILABLE)"

text \<open>Modelled from the spec: \<^verbatim>\<open>err_pdu_send\<close> of the missing \<^verbatim>\<open>err_pdu.c\<close>;
  it writes one Error Report PDU and, when the code is fatal, closes the session.  Its
  result is the result of the write.\<close>

definition err_pdu_send ::
  "rtr_env \<Rightarrow> int \<Rightarrow> u8 \<Rightarrow> u16 \<Rightarrow> pdu_header option \<Rightarrow> string option
     \<Rightarrow> int \<times> rtr_event list" where
  "err_pdu_send env fd version code hdr msg =
     (let ev = ErrorReportPdu fd version code hdr msg
      in (send_result env ev, ev # (if err_pdu_is_fatal code then [CloseFd fd] else [])))"

text \<open>
  The four senders belong to \<^verbatim>\<open>pdu_sender.c\<close>, which is missing.  A call is one entry
  of the log (\<open>PayloadPdus\<close> stands for the whole run of payload PDUs), and its return
  code is the one the environment gives for it.
\<close>

definition send_cache_response_pdu :: "rtr_env \<Rightarrow> sender_common \<Rightarrow> int \<times> rtr_event list" where
  "send_cache_response_pdu env common =
     (send_result env (CacheResponsePdu common), [CacheResponsePdu common])"


definition send_end_of_data_pdu :: "rtr_env \<Rightarrow> sender_common \<Rightarrow> int \<times> rtr_event list" where
  "send_end_of_data_pdu env common =
     (send_result env (EndOfDataPdu common), [EndOfDataPdu common])"

definition send_cache_reset_pdu :: "rtr_env \<Rightarrow> sender_common \<Rightarrow> int \<times> rtr_event list" where
  "send_cache_reset_pdu env common =
     (send_result env (CacheResetPdu common), [CacheResetPdu common])"

subsection \<open>RTR: the handlers of \<^verbatim>\<open>pdu_handler.c\<close>\<close>

definition warn_unexpected_pdu ::
  "rtr_env \<Rightarrow> int \<Rightarrow> pdu_header \<Rightarrow> string \<Rightarrow> int outcome \<times> rtr_event list" where
  "warn_unexpected_pdu env fd pdu pdu_name =
     (let (r, log) = err_pdu_send env fd (protocol_version pdu) ERR_PDU_UNSUP_PDU_TYPE
                       (Some pdu) (Some ''Unexpected PDU received'')
      in (Returned (- EINVAL), log))"

definition handle_serial_notify_pdu ::
  "rtr_env \<Rightarrow> int \<Rightarrow> pdu_header \<Rightarrow> int outcome \<times> rtr_event list" where
  "handle_serial_notify_pdu env fd pdu = warn_unexpected_pdu env fd pdu ''Serial Notify''"


definition handle_serial_query_pdu ::
  "rtr_env \<Rightarrow> int \<Rightarrow> serial_query_pdu \<Rightarrow> int outcome \<times> rtr_event list" where
  "handle_serial_query_pdu env fd received =
     (let version = protocol_version (header received);
          sid = get_current_session_id env version
      in if session_id (header received) \<noteq> sid
         then (let (r, log) = err_pdu_send env fd version ERR_PDU_CORRUPT_DATA None None
               in (Returned r, log))
         else
           let current_serial = get_last_serial_number env;
               common = init_sender_common fd version sid
                          (Some (serial_number received)) (Some current_serial);
               updates = deltas_db_status env (start_serial common);
               q = [DeltasDbStatus (start_serial common)]
           in case updates of
                NO_DATA_AVAILABLE \<Rightarrow>
                  (let (r, log) = err_pdu_send env fd version ERR_PDU_NO_DATA_AVAILABLE None None
                   in (Returned r, q @ log))
              | DIFF_UNDETERMINED \<Rightarrow>
                  (let (r, log) = send_cache_reset_pdu env common in (Returned r, q @ log))
              | DIFF_AVAILABLE \<Rightarrow>
                  (let (r, log) = send_cache_reset_pdu env common in (Returned r, q @ log))
              | NO_DIFF \<Rightarrow>
                  (let (error, log1) = send_cache_response_pdu env common in
                   if error \<noteq> 0 then (Returned error, q @ log1)
                   else let (r, log2) = send_end_of_data_pdu env common
                        in (Returned r, q @ log1 @ log2))
              | STATUS_OTHER _ \<Rightarrow> (err (- EINVAL), q))"


definition handle_cache_response_pdu ::
  "rtr_env \<Rightarrow> int \<Rightarrow> pdu_header \<Rightarrow> int outcome \<times> rtr_event list" where
  "handle_cache_response_pdu env fd pdu = warn_unexpected_pdu env fd pdu ''Cache Response''"

definition handle_ipv4_prefix_pdu ::
  "rtr_env \<Rightarrow> int \<Rightarrow> pdu_header \<Rightarrow> int outcome \<times> rtr_event list" where
  "handle_ipv4_prefix_pdu env fd pdu = warn_unexpected_pdu env fd pdu ''IPv4 Prefix''"

definition handle_ipv6_prefix_pdu ::
  "rtr_env \<Rightarrow> int \<Rightarrow> pdu_header \<Rightarrow> int outcome \<times> rtr_event list" where
  "handle_ipv6_prefix_pdu env fd pdu = warn_unexpected_pdu env fd pdu ''IPv6 Prefix''"

definition handle_end_of_data_pdu ::
  "rtr_env \<Rightarrow> int \<Rightarrow> pdu_header \<Rightarrow> int outcome \<times> rtr_event list" where
  "handle_end_of_data_pdu env fd pdu = warn_unexpected_pdu env fd pdu ''End of Data''"

definition handle_cache_reset_pdu ::
  "rtr_env \<Rightarrow> int \<Rightarrow> pdu_header \<Rightarrow> int outcome \<times> rtr_event list" where
  "handle_cache_reset_pdu env fd pdu = warn_unexpected_pdu env fd pdu ''Cache Reset''"

text \<open>
  Servers and a PDU header to run the handlers on: \<open>quiet_env\<close> answers every requested
  serial with the given status and every write with success; in \<open>broken_pipe_env\<close> the
  store holds data and the write of the Cache Response fails with \<^verbatim>\<open>-EPIPE\<close>.
\<close>

definition quiet_env :: "delta_status \<Rightarrow> rtr_env" where
  "quiet_env st = \<lparr>get_current_session_id = (\<lambda>v. 7), get_last_serial_number = 42,
     db_has_data = (st \<noteq> NO_DATA_AVAILABLE), serial_status = (\<lambda>s. st),
     send_result = (\<lambda>ev. 0)\<rparr>"


definition example_header :: "u8 \<Rightarrow> u16 \<Rightarrow> pdu_header" where
  "example_header ty sid = \<lparr>protocol_version = 1, pdu_type = ty, session_id = sid, pdu_length = 8\<rparr>"

subsection \<open>TAL files: the parser of \<^verbatim>\<open>tal.c\<close>\<close>

text \<open>
  A pointer into the file buffer is the list of the bytes from there on.  The C string it
  denotes ends before the first NUL, or where the list ends (there the terminator of the
  buffer stands): \<open>c_str\<close>.  Every function that reads through a \<^verbatim>\<open>char *\<close> stops at
  that place.  \<^verbatim>\<open>nl[0] = '\0'\<close> cuts the current line off, which is \<open>take\<close> on the list.
\<close>

definition LF :: char where "LF = CHR 0x0A"
definition CR :: char where "CR = CHR 0x0D"
definition NUL :: char where "NUL = CHR 0x00"

definition c_str :: "string \<Rightarrow> string" where
  "c_str s = takeWhile (\<lambda>c. c \<noteq> NUL) s"

text \<open>The test \<^verbatim>\<open>*fc == '\0'\<close>.\<close>

definition at_end :: "string \<Rightarrow> bool" where
  "at_end s = (case s of [] \<Rightarrow> True | c # cs \<Rightarrow> c = NUL)"

datatype uri_type = UT_RSYNC | UT_HTTPS

record rpki_uri =
  uri_tal :: string
  uri_kind :: uri_type
  uri_global :: string

text \<open>The handle \<^verbatim>\<open>cache_create\<close> gives for a TAL file name.\<close>

datatype rpki_cache = Cache string

definition cache_create :: "string \<Rightarrow> rpki_cache" where
  "cache_create tal_name = Cache tal_name"

text \<open>\<^verbatim>\<open>struct tal\<close>.  \<^verbatim>\<open>spki_len\<close> is the length of \<open>spki\<close>; the cache is \<open>None\<close> until
  \<^verbatim>\<open>tal_init\<close> assigns it.\<close>

record tal =
  file_name :: string
  uris :: "rpki_uri list"
  spki :: "u8 list"
  cache :: "rpki_cache option"

text \<open>
  The failures of the parser.  \<^verbatim>\<open>pr_op_err\<close> logs its message and returns a non-zero
  code; the model keeps which message it was.  \<open>UriCreateFailed\<close> and \<open>FileLoadFailed\<close>
  carry the non-zero code of \<^verbatim>\<open>uri_create\<close> and \<^verbatim>\<open>file_load\<close>.
\<close>

datatype tal_error =
    NonRsyncHttpsUri string
  | UriCreateFailed int
  | MissingPublicKey
  | BlankBeforeUris
  | CannotDecodeKey
  | EndsPrematurely string
  | FileLoadFailed int

text \<open>What the parser calls and this file does not define: \<^verbatim>\<open>file_load\<close> (error code
  and content), \<^verbatim>\<open>uri_create\<close> (error code and the new URI) and \<^verbatim>\<open>base64_decode\<close>
  (\<open>None\<close> when it returns false).\<close>

record tal_env =
  file_load :: "string \<Rightarrow> int \<times> string"
  uri_create :: "string \<Rightarrow> uri_type \<Rightarrow> string \<Rightarrow> int \<times> rpki_uri"
  base64_decode :: "string \<Rightarrow> u8 list option"

fun find_newline :: "string \<Rightarrow> nat option" where
  "find_newline [] = None"
| "find_newline (c # cs) =
     (if c = NUL then None
      else if c = LF then Some 0
      else if c = CR \<and> (case cs of [] \<Rightarrow> False | d # _ \<Rightarrow> d = LF) then Some 0
      else map_option Suc (find_newline cs))"

text \<open>\<^verbatim>\<open>strchr\<close>, as the offset of the first occurrence in the C string; the
  terminator belongs to the string, so it is found when NUL is what is looked for.\<close>

fun strchr :: "string \<Rightarrow> char \<Rightarrow> nat option" where
  "strchr [] c = (if c = NUL then Some 0 else None)"
| "strchr (x # xs) c =
     (if x = c then Some 0
      else if x = NUL then None
      else map_option Suc (strchr xs c))"

text \<open>\<^verbatim>\<open>isspace\<close> in the C locale: space, and the controls from tab to carriage return.\<close>

definition isspace :: "char \<Rightarrow> bool" where
  "isspace c = (c = CHR 0x20 \<or> c = CHR 0x09 \<or> c = CHR 0x0A \<or> c = CHR 0x0B
                \<or> c = CHR 0x0C \<or> c = CHR 0x0D)"

fun is_blank :: "string \<Rightarrow> bool" where
  "is_blank [] = True"
| "is_blank (c # cs) =
     (if c = NUL then True
      else if \<not> isspace c then False
      else is_blank cs)"

text \<open>Modelled from the spec: \<^verbatim>\<open>str_starts_with\<close>, whose file is missing; the C string
  begins with the scheme.\<close>

definition str_starts_with :: "string \<Rightarrow> string \<Rightarrow> bool" where
  "str_starts_with str pfx = prefix (c_str pfx) (c_str str)"

text \<open>\<^verbatim>\<open>add_uri\<close>; the collaborators and the message get the C string \<^verbatim>\<open>uri\<close> points
  to.\<close>

definition add_uri :: "tal_env \<Rightarrow> tal \<Rightarrow> string \<Rightarrow> tal_error option \<times> tal" where
  "add_uri env t uri =
     (if str_starts_with uri ''rsync://'' then
        (let (error, new) = uri_create env (file_name t) UT_RSYNC (c_str uri) in
         if error \<noteq> 0 then (Some (UriCreateFailed error), t)
         else (None, t\<lparr>uris := uris t @ [new]\<rparr>))
      else if str_starts_with uri ''https://'' then
        (let (error, new) = uri_create env (file_name t) UT_HTTPS (c_str uri) in
         if error \<noteq> 0 then (Some (UriCreateFailed error), t)
         else (None, t\<lparr>uris := uris t @ [new]\<rparr>))
      else (Some (NonRsyncHttpsUri (c_str uri)), t))"

text \<open>The comment section of \<^verbatim>\<open>read_content\<close>: the text after the leading \<^verbatim>\<open>#\<close> lines,
  or the premature end.\<close>

function skip_comments :: "string \<Rightarrow> tal_error + string" where
  "skip_comments fc =
     (case fc of
        [] \<Rightarrow> Inr fc
      | c # cs \<Rightarrow>
          if c = CHR ''#'' then
            (case strchr fc LF of
               None \<Rightarrow> Inl (EndsPrematurely (c_str fc))
             | Some n \<Rightarrow> skip_comments (drop (n + 1) fc))
          else Inr fc)"
  by pat_completeness auto
termination
  by (relation "measure length") auto

lemma find_newline_less: "find_newline fc = Some n \<Longrightarrow> n < length fc"
  by (induction fc arbitrary: n) (auto split: if_splits)

text \<open>
  The URI section of \<^verbatim>\<open>read_content\<close>: either an error with the TAL as built so far,
  or the TAL and the text after the blank line (\<^verbatim>\<open>nl + cr + 1\<close>).
\<close>

function uri_section :: "tal_env \<Rightarrow> string \<Rightarrow> tal \<Rightarrow> (tal_error \<times> tal) + (tal \<times> string)" where
  "uri_section env fc t =
     (case find_newline fc of
        None \<Rightarrow> Inl (EndsPrematurely (c_str fc), t)
      | Some n \<Rightarrow>
          let cr = (fc ! n = CR);
              line = take n fc;
              after = drop (n + (if cr then 1 else 0) + 1) fc
          in if is_blank line then Inr (t, after)
             else (case add_uri env t line of
                     (Some error, t') \<Rightarrow> Inl (error, t')
                   | (None, t') \<Rightarrow>
                       if at_end after then Inl (MissingPublicKey, t')
                       else uri_section env after t'))"
  by pat_completeness auto
termination
  by (relation "measure (\<lambda>(env, fc, t). length fc)") (auto dest: find_newline_less)

definition read_content :: "tal_env \<Rightarrow> string \<Rightarrow> tal \<Rightarrow> tal_error option \<times> tal" where
  "read_content env fc t =
     (case skip_comments fc of
        Inl error \<Rightarrow> (Some error, t)
      | Inr fc' \<Rightarrow>
          (case uri_section env fc' t of
             Inl (error, t') \<Rightarrow> (Some error, t')
           | Inr (t', key) \<Rightarrow>
               if length (uris t') = 0 then (Some BlankBeforeUris, t')
               else (case base64_decode env (c_str key) of
                       None \<Rightarrow> (Some CannotDecodeKey, t')
                     | Some bytes \<Rightarrow> (None, t'\<lparr>spki := bytes\<rparr>))))"

text \<open>\<^verbatim>\<open>strrchr(file_path, '/')\<close> and the choice after it: the part after the last slash.\<close>

definition base_name :: "string \<Rightarrow> string" where
  "base_name file_path = rev (takeWhile (\<lambda>c. c \<noteq> CHR ''/'') (rev (c_str file_path)))"

text \<open>
  \<^verbatim>\<open>tal_init\<close>: the TAL, or the error together with the URIs that \<^verbatim>\<open>uris_cleanup\<close>
  released (none when the file could not be loaded).
\<close>

definition tal_init :: "tal_env \<Rightarrow> string \<Rightarrow> (tal_error \<times> rpki_uri list) + tal" where
  "tal_init env file_path =
     (let (error, content) = file_load env file_path in
      if error \<noteq> 0 then Inl (FileLoadFailed error, [])
      else
        let name = base_name file_path;
            t = \<lparr>file_name = name, uris = [], spki = [], cache = None\<rparr>
        in case read_content env content t of
             (Some error, t') \<Rightarrow> Inl (error, uris t')
           | (None, t') \<Rightarrow> Inr (t'\<lparr>cache := Some (cache_create name)\<rparr>))"

declare uri_section.simps [simp del] skip_comments.simps [simp del]

text \<open>
  The vocabulary for TAL texts: lines, each ended by LF or by CRLF; comment lines; a line
  of text with its line break (no LF and no NUL in the line, and no CR at the end of a
  line that LF alone ends); and, for a line and the file name of the TAL, whether
  \<^verbatim>\<open>add_uri\<close> accepts it (known scheme, \<^verbatim>\<open>uri_create\<close> returning 0), the URI it then
  appends, and the error it returns otherwise.
\<close>

definition eol :: "bool \<Rightarrow> string" where
  "eol crlf = (if crlf then [CR, LF] else [LF])"

definition text_lines :: "(string \<times> bool) list \<Rightarrow> string" where
  "text_lines ls = concat (map (\<lambda>(l, crlf). l @ eol crlf) ls)"

definition text_line :: "string \<Rightarrow> bool \<Rightarrow> bool" where
  "text_line l crlf = (LF \<notin> set l \<and> NUL \<notin> set l \<and> (crlf \<or> l = [] \<or> last l \<noteq> CR))"

definition is_comment :: "string \<Rightarrow> bool" where
  "is_comment c = (prefix ''#'' c \<and> LF \<notin> set c \<and> NUL \<notin> set c)"

definition comment_block :: "string list \<Rightarrow> string" where
  "comment_block cs = concat (map (\<lambda>c. c @ [LF]) cs)"

definition accepts :: "tal_env \<Rightarrow> string \<Rightarrow> string \<Rightarrow> bool" where
  "accepts env name l =
     (if str_starts_with l ''rsync://'' then fst (uri_create env name UT_RSYNC l) = 0
      else str_starts_with l ''https://'' \<and> fst (uri_create env name UT_HTTPS l) = 0)"

definition created :: "tal_env \<Rightarrow> string \<Rightarrow> string \<Rightarrow> rpki_uri" where
  "created env name l =
     snd (uri_create env name (if str_starts_with l ''rsync://'' then UT_RSYNC else UT_HTTPS) l)"

definition rejection :: "tal_env \<Rightarrow> string \<Rightarrow> string \<Rightarrow> tal_error" where
  "rejection env name l =
     (if str_starts_with l ''rsync://'' then UriCreateFailed (fst (uri_create env name UT_RSYNC l))
      else if str_starts_with l ''https://''
        then UriCreateFailed (fst (uri_create env name UT_HTTPS l))
      else NonRsyncHttpsUri l)"

text \<open>
  The URI block of a TAL text: after the leading comment lines, the lines up to the first
  blank one, split at LF or CRLF, each with the mark \<open>True\<close>; a last piece of text that no
  line break ends is a line of the block as well, with the mark \<open>False\<close>, unless it is
  blank.
\<close>

function uri_lines :: "string \<Rightarrow> (string \<times> bool) list" where
  "uri_lines fc =
     (case find_newline fc of
        None \<Rightarrow> (if is_blank fc then [] else [(c_str fc, False)])
      | Some n \<Rightarrow>
          let line = take n fc;
              after = drop (n + (if fc ! n = CR then 1 else 0) + 1) fc
          in if is_blank line then [] else (line, True) # uri_lines after)"
  by pat_completeness auto
termination
  by (relation "measure length") (auto dest: find_newline_less)

declare uri_lines.simps [simp del]

definition uri_block :: "string \<Rightarrow> (string \<times> bool) list" where
  "uri_block fc = (case skip_comments fc of Inl error \<Rightarrow> [] | Inr body \<Rightarrow> uri_lines body)"

text \<open>
  What the parser does to a line of the block: a line with a line break that \<^verbatim>\<open>add_uri\<close>
  accepts is passed; the first line that is not passed ends the parse with its verdict,
  the premature end for the piece without line break, the error of \<^verbatim>\<open>add_uri\<close> otherwise.
\<close>

definition passed :: "tal_env \<Rightarrow> string \<Rightarrow> string \<times> bool \<Rightarrow> bool" where
  "passed env name ln = (snd ln \<and> accepts env name (fst ln))"

definition verdict :: "tal_env \<Rightarrow> string \<Rightarrow> string \<times> bool \<Rightarrow> tal_error" where
  "verdict env name ln =
     (if snd ln then rejection env name (fst ln) else EndsPrematurely (fst ln))"

text \<open>
  A text that ends at a blank line: its last character is a line feed, and the line this
  line feed ends holds white space only.  The flag tells whether the current line has been
  blank so far.
\<close>

fun line_scan :: "bool \<Rightarrow> string \<Rightarrow> bool" where
  "line_scan blank [] = False"
| "line_scan blank (c # cs) =
     (if c = NUL then False
      else if c = LF then (if at_end cs then blank else line_scan True cs)
      else line_scan (blank \<and> isspace c) cs)"

definition ends_at_blank_line :: "string \<Rightarrow> bool" where
  "ends_at_blank_line fc = line_scan True fc"

text \<open>A parser environment whose file has the given content and whose decoder answers
  \<open>key\<close> on the empty text; and the TAL as \<^verbatim>\<open>tal_init\<close> hands it to the parser.\<close>

definition plain_env :: "string \<Rightarrow> u8 list option \<Rightarrow> tal_env" where
  "plain_env content key = \<lparr>file_load = (\<lambda>p. (0, content)),
     uri_create = (\<lambda>name ty s. (0, \<lparr>uri_tal = name, uri_kind = ty, uri_global = s\<rparr>)),
     base64_decode = (\<lambda>s. if s = [] then key else Some [1, 2, 3])\<rparr>"

definition empty_tal :: "string \<Rightarrow> tal" where
  "empty_tal name = \<lparr>file_name = name, uris = [], spki = [], cache = None\<rparr>"

subsection \<open>Validating one TAL URI: \<^verbatim>\<open>handle_tal_uri\<close>\<close>

text \<open>
  \<^verbatim>\<open>certificate_traverse\<close> works on the validation state of the thread (the deferred
  stack, the state of the public key) and, through the handlers registered in
  \<^verbatim>\<open>handle_tal_uri\<close>, on the table \<open>db\<close>.  A publication point is a reference.
\<close>

type_synonym rpp = nat

record deferred_cert =
  d_uri :: rpki_uri
  d_pp :: rpp

text \<open>The states of \<^verbatim>\<open>validation_pubkey_state\<close>; \<open>PKS_OTHER\<close> is any value outside the
  enumeration, which the source answers with \<^verbatim>\<open>pr_crit\<close>.\<close>

datatype pubkey_state = PKS_VALID | PKS_INVALID | PKS_UNTESTED | PKS_OTHER nat

text \<open>What \<^verbatim>\<open>handle_tal_uri\<close> reads of \<^verbatim>\<open>struct validation\<close>: whether
  \<^verbatim>\<open>validation_certstack\<close> is \<^verbatim>\<open>NULL\<close>, the deferred stack (top first), and the state
  of the TAL's public key.\<close>

record validation =
  certstack_null :: bool
  certstack :: "deferred_cert list"
  pubkey_state :: pubkey_state

text \<open>
  The collaborators: \<^verbatim>\<open>validation_prepare\<close> (error code and the new state),
  \<^verbatim>\<open>uri_is_certificate\<close>, and \<^verbatim>\<open>certificate_traverse\<close>, which returns an error code and
  leaves the validation state and the table changed.
\<close>

record 'tbl val_env =
  validation_prepare :: "tal \<Rightarrow> int \<times> validation"
  uri_is_certificate :: "rpki_uri \<Rightarrow> bool"
  certificate_traverse ::
    "rpp option \<Rightarrow> rpki_uri \<Rightarrow> validation \<times> 'tbl \<Rightarrow> int \<times> validation \<times> 'tbl"

text \<open>Modelled from the spec: \<^verbatim>\<open>deferstack_pop\<close> of the missing \<^verbatim>\<open>cert_stack.c\<close>; the
  stack is a LIFO, and popping the empty stack gives the no-more sentinel, which the
  source names \<^verbatim>\<open>-ENOENT\<close>.  \<open>Inl\<close> is a non-zero return code, \<open>Inr\<close> the popped entry
  of a return with 0.\<close>

definition deferstack_pop ::
  "deferred_cert list \<Rightarrow> (int + deferred_cert) \<times> deferred_cert list" where
  "deferstack_pop stack =
     (case stack of [] \<Rightarrow> (Inl (- ENOENT), []) | d # ds \<Rightarrow> (Inr d, ds))"

text \<open>The state of one run of \<^verbatim>\<open>handle_tal_uri\<close>: the validation state, the table, and
  the calls of \<^verbatim>\<open>certificate_traverse\<close> made so far.\<close>

record 'tbl walk =
  w_state :: validation
  w_db :: 'tbl
  w_traversed :: "(rpp option \<times> rpki_uri) list"

definition traverse ::
  "'tbl val_env \<Rightarrow> rpp option \<Rightarrow> rpki_uri \<Rightarrow> 'tbl walk \<Rightarrow> int \<times> 'tbl walk" where
  "traverse env pp uri w =
     (let (error, v, db) = certificate_traverse env pp uri (w_state w, w_db w)
      in (error, \<lparr>w_state = v, w_db = db, w_traversed = w_traversed w @ [(pp, uri)]\<rparr>))"

text \<open>
  The loop over the deferred certificates.  A traversal may push new entries, so the loop
  need not end: it runs on fuel, one unit per pop, and \<open>None\<close> is a run that has not
  returned within the fuel.  The result of \<^verbatim>\<open>certificate_traverse\<close> is dropped, as in the
  source.  The two \<^verbatim>\<open>refput\<close> calls and \<^verbatim>\<open>validation_destroy\<close> release memory and have
  no part in the result.
\<close>

fun handle_deferred ::
  "'tbl val_env \<Rightarrow> nat \<Rightarrow> 'tbl walk \<Rightarrow> (int outcome \<times> 'tbl walk) option" where
  "handle_deferred env 0 w = None"
| "handle_deferred env (Suc fuel) w =
     (case deferstack_pop (certstack (w_state w)) of
        (Inl error, stack) \<Rightarrow>
          if error = - ENOENT then Some (Returned 0, w)
          else Some (Critical ''deferstack_pop() returned illegal code'', w)
      | (Inr deferred, stack) \<Rightarrow>
          (let w1 = w\<lparr>w_state := (w_state w)\<lparr>certstack := stack\<rparr>\<rparr>;
               (ignored, w2) = traverse env (Some (d_pp deferred)) (d_uri deferred) w1
           in handle_deferred env fuel w2))"

definition handle_tal_uri ::
  "'tbl val_env \<Rightarrow> nat \<Rightarrow> tal \<Rightarrow> rpki_uri \<Rightarrow> 'tbl
     \<Rightarrow> (int outcome \<times> 'tbl \<times> (rpp option \<times> rpki_uri) list) option" where
  "handle_tal_uri env fuel t uri db =
     (let (error, state) = validation_prepare env t in
      if error \<noteq> 0 then Some (Returned (ENSURE_NEGATIVE error), db, [])
      else if \<not> uri_is_certificate env uri then Some (Returned EINVAL, db, [])
      else
        let (error, w) = traverse env None uri \<lparr>w_state = state, w_db = db, w_traversed = []\<rparr>
        in if error \<noteq> 0 then
             (case pubkey_state (w_state w) of
                PKS_INVALID \<Rightarrow> Some (Returned EINVAL, w_db w, w_traversed w)
              | PKS_VALID \<Rightarrow> Some (Returned (ENSURE_NEGATIVE error), w_db w, w_traversed w)
              | PKS_UNTESTED \<Rightarrow> Some (Returned (ENSURE_NEGATIVE error), w_db w, w_traversed w)
              | PKS_OTHER n \<Rightarrow>
                  Some (Critical ''Unknown public key state'', w_db w, w_traversed w))
           else if certstack_null (w_state w) then
             Some (Critical ''Validation state has no certificate stack'', w_db w, w_traversed w)
           else map_option (\<lambda>(r, w'). (r, w_db w', w_traversed w')) (handle_deferred env fuel w))"

text \<open>The deferred stack after \<open>n\<close> rounds of the loop (pop, traverse), for saying when it
  is exhausted.\<close>

fun after_rounds :: "'tbl val_env \<Rightarrow> nat \<Rightarrow> 'tbl walk \<Rightarrow> 'tbl walk" where
  "after_rounds env 0 w = w"
| "after_rounds env (Suc n) w =
     (case certstack (w_state w) of
        [] \<Rightarrow> w
      | deferred # stack \<Rightarrow>
          after_rounds env n
            (snd (traverse env (Some (d_pp deferred)) (d_uri deferred)
                    (w\<lparr>w_state := (w_state w)\<lparr>certstack := stack\<rparr>\<rparr>))))"

subsection \<open>One validation thread: \<^verbatim>\<open>do_file_validation\<close>\<close>

text \<open>
  Tables are objects on the heap: a \<^verbatim>\<open>struct db_table *\<close> is a reference, the heap maps
  a reference to the table's content and knows which tables are alive.  The table module
  itself is missing; its constructor and destructor are taken as allocation and release:
  \<^verbatim>\<open>db_table_create\<close> takes the next fresh reference, \<^verbatim>\<open>db_table_destroy\<close> ends the life
  of a table and does nothing on \<^verbatim>\<open>NULL\<close> (\<^verbatim>\<open>thread_destroy\<close> calls it on the \<^verbatim>\<open>db\<close>
  of every thread, failed ones included).
\<close>

type_synonym table_ref = nat

record 'tbl table_heap =
  content :: "table_ref \<Rightarrow> 'tbl"
  live :: "table_ref set"
  next_ref :: table_ref

definition db_table_create :: "'tbl \<Rightarrow> 'tbl table_heap \<Rightarrow> table_ref \<times> 'tbl table_heap" where
  "db_table_create new h =
     (next_ref h,
      h\<lparr>content := (content h)(next_ref h := new),
        live := insert (next_ref h) (live h),
        next_ref := next_ref h + 1\<rparr>)"

definition db_table_destroy :: "'tbl table_heap \<Rightarrow> table_ref option \<Rightarrow> 'tbl table_heap" where
  "db_table_destroy h db = (case db of None \<Rightarrow> h | Some p \<Rightarrow> h\<lparr>live := live h - {p}\<rparr>)"

text \<open>\<^verbatim>\<open>struct validation_thread\<close>, and the fields as \<^verbatim>\<open>spawn_tal_thread\<close> sets them before
  the thread starts.\<close>

record validation_thread =
  thr_pid :: nat
  thr_tal_file :: string
  thr_db :: "table_ref option"
  thr_error :: int

definition new_validation_thread :: "nat \<Rightarrow> string \<Rightarrow> validation_thread" where
  "new_validation_thread pid tal_file =
     \<lparr>thr_pid = pid, thr_tal_file = tal_file, thr_db = None, thr_error = - EINTR\<rparr>"

text \<open>
  What the thread works with.  \<^verbatim>\<open>cache_download_alt\<close> belongs to the missing
  \<^verbatim>\<open>local_cache.c\<close>: it gets the cache, the URIs, the callback and the table the callback
  fills, and answers like the callback does: \<open>None\<close> when it does not return, the way
  the process ended inside it, or its return code with the table as it is then.
  \<open>empty_table\<close> is the content of a new table, \<open>pr_op_err_code\<close> the code \<^verbatim>\<open>pr_op_err\<close>
  returns.
\<close>

record 'tbl worker_env =
  parser :: tal_env
  validator :: "'tbl val_env"
  cache_download_alt ::
    "rpki_cache option \<Rightarrow> rpki_uri list \<Rightarrow> (rpki_uri \<Rightarrow> 'tbl \<Rightarrow> (int outcome \<times> 'tbl) option)
       \<Rightarrow> 'tbl \<Rightarrow> (int outcome \<times> 'tbl) option"
  empty_table :: 'tbl
  pr_op_err_code :: int

definition tal_error_code :: "'tbl worker_env \<Rightarrow> tal_error \<Rightarrow> int" where
  "tal_error_code env e =
     (case e of FileLoadFailed n \<Rightarrow> n | UriCreateFailed n \<Rightarrow> n | _ \<Rightarrow> pr_op_err_code env)"

text \<open>\<^verbatim>\<open>__handle_tal_uri\<close>, the callback: \<^verbatim>\<open>handle_tal_uri\<close> on the TAL and table of the
  thread.\<close>

definition handle_tal_uri_cb ::
  "'tbl worker_env \<Rightarrow> nat \<Rightarrow> tal \<Rightarrow> rpki_uri \<Rightarrow> 'tbl \<Rightarrow> (int outcome \<times> 'tbl) option" where
  "handle_tal_uri_cb env fuel t uri db =
     map_option (\<lambda>(r, db', traversed). (r, db')) (handle_tal_uri (validator env) fuel t uri db)"

definition do_file_validation ::
  "'tbl worker_env \<Rightarrow> nat \<Rightarrow> validation_thread \<Rightarrow> 'tbl table_heap
     \<Rightarrow> (validation_thread \<times> 'tbl table_heap) outcome option" where
  "do_file_validation env fuel thread h =
     (case tal_init (parser env) (thr_tal_file thread) of
        Inl (error, released) \<Rightarrow> Some (Returned (thread\<lparr>thr_error := tal_error_code env error\<rparr>, h))
      | Inr t \<Rightarrow>
          (let (db, h1) = db_table_create (empty_table env) h in
           case cache_download_alt env (cache t) (uris t) (handle_tal_uri_cb env fuel t)
                  (content h1 db) of
             None \<Rightarrow> None
           | Some (Exited n, tbl) \<Rightarrow> Some (Exited n)
           | Some (Critical msg, tbl) \<Rightarrow> Some (Critical msg)
           | Some (Returned error, tbl) \<Rightarrow>
               (let h2 = h1\<lparr>content := (content h1)(db := tbl)\<rparr> in
                if error \<noteq> 0
                then Some (Returned (thread\<lparr>thr_error := error\<rparr>, db_table_destroy h2 (Some db)))
                else Some (Returned (thread\<lparr>thr_error := error, thr_db := Some db\<rparr>, h2)))))"

text \<open>Modelled from the spec: \<^verbatim>\<open>cache_download_alt\<close> as the Repository Fetcher is
  described: the URIs are tried in list order; a URI whose download fails is skipped; the
  callback runs on a downloaded URI, success of the callback ends the search with success,
  otherwise the next URI is tried; when no URI is left the result is the failure code.\<close>

fun download_alt ::
  "(rpki_uri \<Rightarrow> int) \<Rightarrow> int \<Rightarrow> rpki_uri list \<Rightarrow> (rpki_uri \<Rightarrow> 'tbl \<Rightarrow> (int outcome \<times> 'tbl) option)
     \<Rightarrow> 'tbl \<Rightarrow> (int outcome \<times> 'tbl) option" where
  "download_alt download failure [] visit db = Some (Returned failure, db)"
| "download_alt download failure (uri # rest) visit db =
     (if download uri \<noteq> 0 then download_alt download failure rest visit db
      else (case visit uri db of
              None \<Rightarrow> None
            | Some (Returned error, db') \<Rightarrow>
                if error = 0 then Some (Returned 0, db')
                else download_alt download failure rest visit db'
            | Some (ended, db') \<Rightarrow> Some (ended, db')))"

text \<open>
  A small world to run the definitions on: a root certificate that defers two children,
  \<^verbatim>\<open>bad.cer\<close>, whose traversal fails, and \<^verbatim>\<open>ca.cer\<close>, whose traversal adds a VRP; the
  root adds a VRP of its own and returns \<open>root_error\<close>.  A table is the list of its VRPs.
\<close>

definition example_uri :: "string \<Rightarrow> rpki_uri" where
  "example_uri s = \<lparr>uri_tal = ''arin.tal'', uri_kind = UT_RSYNC, uri_global = s\<rparr>"

definition example_val_env :: "int \<Rightarrow> string list val_env" where
  "example_val_env root_error =
     \<lparr>validation_prepare =
        (\<lambda>t. (0, \<lparr>certstack_null = False, certstack = [], pubkey_state = PKS_UNTESTED\<rparr>)),
      uri_is_certificate = (\<lambda>u. suffix ''.cer'' (uri_global u)),
      certificate_traverse =
        (\<lambda>pp u (v, db).
           if pp = None then
             (root_error,
              v\<lparr>certstack := [\<lparr>d_uri = example_uri ''rsync://rpki.example.net/repo/bad.cer'',
                                d_pp = 1\<rparr>,
                              \<lparr>d_uri = example_uri ''rsync://rpki.example.net/repo/ca.cer'',
                                d_pp = 1\<rparr>] @ certstack v,
                pubkey_state := PKS_VALID\<rparr>,
              db @ [''AS64496 192.0.2.0/24''])
           else if uri_global u = ''rsync://rpki.example.net/repo/bad.cer'' then (- 22, v, db)
           else (0, v, db @ [''AS64497 198.51.100.0/24'']))\<rparr>"

text \<open>The same world with a \<^verbatim>\<open>validation_prepare\<close> that fails with code 12.\<close>

definition failing_prepare_env :: "string list val_env" where
  "failing_prepare_env =
     (example_val_env 0)\<lparr>validation_prepare :=
        (\<lambda>t. (12, \<lparr>certstack_null = True, certstack = [], pubkey_state = PKS_UNTESTED\<rparr>))\<rparr>"

definition example_tal_text :: string where
  "example_tal_text = ''# ARIN'' @ [LF] @ ''rsync://rpki.example.net/ta.cer'' @ [LF]
     @ ''https://rpki.example.net/ta.cer'' @ [LF] @ [LF] @ ''MIIB''"

definition example_worker_env :: "int \<Rightarrow> string list worker_env" where
  "example_worker_env root_error =
     \<lparr>parser = plain_env example_tal_text None,
      validator = example_val_env root_error,
      cache_download_alt = (\<lambda>cache us visit db. download_alt (\<lambda>u. 0) (- 22) us visit db),
      empty_table = [],
      pr_op_err_code = - 22\<rparr>"

definition empty_heap :: "string list table_heap" where
  "empty_heap = \<lparr>content = (\<lambda>p. []), live = {}, next_ref = 0\<rparr>"

subsection \<open>The dispatcher: \<^verbatim>\<open>perform_standalone_validation\<close>\<close>

text \<open>
  The dispatcher sees each thread after \<^verbatim>\<open>pthread_join\<close>, that is, with the \<^verbatim>\<open>error\<close>
  and \<^verbatim>\<open>db\<close> the thread ended with.  \<^verbatim>\<open>pthread_join\<close> gives an error code per thread;
  \<^verbatim>\<open>db_table_join\<close>, of the missing \<^verbatim>\<open>vrps.h\<close>, gets the content of the destination and
  of the source (\<open>None\<close> for \<^verbatim>\<open>NULL\<close>) and gives its return code and the new content of
  the destination.
\<close>

record 'tbl dispatch_env =
  pthread_join :: "nat \<Rightarrow> int"
  db_table_join :: "'tbl \<Rightarrow> 'tbl option \<Rightarrow> int \<times> 'tbl"

definition thread_destroy :: "'tbl table_heap \<Rightarrow> validation_thread \<Rightarrow> 'tbl table_heap" where
  "thread_destroy h thread = db_table_destroy h (thr_db thread)"

text \<open>The variables of the loop "wait for all": \<^verbatim>\<open>db\<close>, \<^verbatim>\<open>error\<close>, the heap, and the
  threads joined so far.\<close>

record 'tbl join_state =
  js_db :: "table_ref option"
  js_error :: int
  js_heap :: "'tbl table_heap"
  js_joined :: "nat list"

text \<open>One round of the loop, after \<^verbatim>\<open>pthread_join\<close> has returned 0: from
  \<^verbatim>\<open>SLIST_REMOVE_HEAD\<close> to \<^verbatim>\<open>thread_destroy\<close>.\<close>

definition join_thread ::
  "'tbl dispatch_env \<Rightarrow> validation_thread \<Rightarrow> 'tbl join_state \<Rightarrow> 'tbl join_state" where
  "join_thread env thread s =
     (let s1 = s\<lparr>js_joined := js_joined s @ [thr_pid thread]\<rparr>;
          s2 = (if thr_error thread \<noteq> 0 then s1\<lparr>js_error := thr_error thread\<rparr> else s1);
          (s3, thread') =
            (if js_error s2 = 0 then
               (case js_db s2 of
                  None \<Rightarrow> (s2\<lparr>js_db := thr_db thread\<rparr>, thread\<lparr>thr_db := None\<rparr>)
                | Some db \<Rightarrow>
                    (let h = js_heap s2;
                         (error, tbl) = db_table_join env (content h db)
                                          (map_option (content h) (thr_db thread))
                     in (s2\<lparr>js_error := error,
                            js_heap := h\<lparr>content := (content h)(db := tbl)\<rparr>\<rparr>, thread)))
             else (s2, thread))
      in s3\<lparr>js_heap := thread_destroy (js_heap s3) thread'\<rparr>)"

fun wait_for_all ::
  "'tbl dispatch_env \<Rightarrow> validation_thread list \<Rightarrow> 'tbl join_state \<Rightarrow> 'tbl join_state outcome" where
  "wait_for_all env [] s = Returned s"
| "wait_for_all env (thread # threads) s =
     (let tmperr = pthread_join env (thr_pid thread) in
      if tmperr \<noteq> 0 then Critical ''pthread_join() threw an error''
      else wait_for_all env threads (join_thread env thread s))"

text \<open>
  \<^verbatim>\<open>perform_standalone_validation\<close>.  \<open>spawned\<close> is what \<^verbatim>\<open>foreach_file\<close> with
  \<^verbatim>\<open>spawn_tal_thread\<close> leaves: its return code and the list of threads, head first.  The
  result is the returned table, the heap, and the threads joined, in order.
\<close>

definition perform_standalone_validation ::
  "'tbl dispatch_env \<Rightarrow> int \<times> validation_thread list \<Rightarrow> 'tbl table_heap
     \<Rightarrow> (table_ref option \<times> 'tbl table_heap \<times> nat list) outcome" where
  "perform_standalone_validation env spawned h =
     (let (spawn_error, threads) = spawned in
      if spawn_error \<noteq> 0 then Returned (None, fold (\<lambda>t h'. thread_destroy h' t) threads h, [])
      else
        (case wait_for_all env threads \<lparr>js_db = None, js_error = 0, js_heap = h, js_joined = []\<rparr> of
           Returned s \<Rightarrow>
             if js_error s \<noteq> 0
             then Returned (None, db_table_destroy (js_heap s) (js_db s), js_joined s)
             else Returned (js_db s, js_heap s, js_joined s)
         | Exited n \<Rightarrow> Exited n
         | Critical msg \<Rightarrow> Critical msg))"

text \<open>"The table obtained by repeatedly joining the per-TAL tables", in the words of the
  specification: the first table takes the others in, one after the other; a join that
  reports an error ends it with that error.\<close>

fun join_all :: "'tbl dispatch_env \<Rightarrow> 'tbl \<Rightarrow> 'tbl list \<Rightarrow> int \<times> 'tbl" where
  "join_all env acc [] = (0, acc)"
| "join_all env acc (tbl # tbls) =
     (let (error, acc') = db_table_join env acc (Some tbl)
      in if error \<noteq> 0 then (error, acc') else join_all env acc' tbls)"

text \<open>A dispatcher whose joins append the source to the destination, and a heap with three
  tables.\<close>

definition append_env :: "string list dispatch_env" where
  "append_env = \<lparr>pthread_join = (\<lambda>pid. 0),
                 db_table_join = (\<lambda>dst src. (0, dst @ (case src of None \<Rightarrow> [] | Some t \<Rightarrow> t)))\<rparr>"

text \<open>A dispatcher whose \<^verbatim>\<open>db_table_join\<close> fails with code \<open>-12\<close> and leaves the
  destination as it was, and one whose \<^verbatim>\<open>pthread_join\<close> fails on thread 2.\<close>

definition failing_join_env :: "string list dispatch_env" where
  "failing_join_env = \<lparr>pthread_join = (\<lambda>pid. 0), db_table_join = (\<lambda>dst src. (- 12, dst))\<rparr>"

definition failing_pthread_env :: "string list dispatch_env" where
  "failing_pthread_env = append_env\<lparr>pthread_join := (\<lambda>pid. if pid = 2 then 3 else 0)\<rparr>"

definition three_tables :: "string list table_heap" where
  "three_tables =
     \<lparr>content = (\<lambda>p. if p = 0 then [''AS64496 192.0.2.0/24'']
                     else if p = 1 then [''AS64497 198.51.100.0/24'']
                     else if p = 2 then [''AS64498 203.0.113.0/24''] else []),
      live = {0, 1, 2}, next_ref = 3\<rparr>"

definition finished_thread :: "nat \<Rightarrow> table_ref option \<Rightarrow> int \<Rightarrow> validation_thread" where
  "finished_thread pid db error =
     \<lparr>thr_pid = pid, thr_tal_file = ''/etc/tals/'' @ [char_of (48 + pid)] @ ''.tal'',
      thr_db = db, thr_error = error\<rparr>"

section \<open>Properties\<close>

subsection \<open>The RTR handlers\<close>

text \<open>
  C2.  A Serial Query whose session id is the server's, for a serial the delta store
  answers \<open>DIFF_AVAILABLE\<close> to, is answered by one write: a Cache Reset PDU.  No Cache
  Response, payload or End of Data is written, and the result of the handler is the result
  of that write.
\<close>

theorem serial_query_diff_available_cache_reset:
  assumes "session_id (header pdu) = get_current_session_id env (protocol_version (header pdu))"
    and "deltas_db_status env (Some (serial_number pdu)) = DIFF_AVAILABLE"
  shows "handle_serial_query_pdu env fd pdu =
     (let common = init_sender_common fd (protocol_version (header pdu)) (session_id (header pdu))
                     (Some (serial_number pdu)) (Some (get_last_serial_number env))
      in (Returned (send_result env (CacheResetPdu common)),
          [DeltasDbStatus (Some (serial_number pdu)), CacheResetPdu common]))"
  using assms
  by (simp add: handle_serial_query_pdu_def Let_def init_sender_common_def send_cache_reset_pdu_def)

theorem serial_query_diff_available_cache_reset_witness:
  "handle_serial_query_pdu (quiet_env DIFF_AVAILABLE) 3
      \<lparr>header = example_header 1 7, serial_number = 40\<rparr> =
     (Returned 0,
      [DeltasDbStatus (Some 40),
       CacheResetPdu \<lparr>c_fd = 3, c_version = 1, c_session_id = 7,
                      start_serial = Some 40, end_serial = Some 42\<rparr>])"
  using serial_query_diff_available_cache_reset
    [of "\<lparr>header = example_header 1 7, serial_number = 40\<rparr>" "quiet_env DIFF_AVAILABLE" 3]
  by (simp add: quiet_env_def example_header_def init_sender_common_def deltas_db_status_def)

text \<open>
  C3.  A Serial Query whose session id differs from the server's is answered by exactly
  one PDU, an Error Report with code Corrupt Data and neither header nor message; the
  delta store is not asked (the log holds no \<open>DeltasDbStatus\<close>), nothing else is written,
  and the connection is closed after the report.
\<close>

theorem serial_query_session_mismatch:
  assumes "session_id (header pdu) \<noteq> get_current_session_id env (protocol_version (header pdu))"
  shows "handle_serial_query_pdu env fd pdu =
     (let ev = ErrorReportPdu fd (protocol_version (header pdu)) ERR_PDU_CORRUPT_DATA None None
      in (Returned (send_result env ev), [ev, CloseFd fd]))"
  using assms
  by (simp add: handle_serial_query_pdu_def Let_def err_pdu_send_def err_pdu_is_fatal_def
      ERR_PDU_CORRUPT_DATA_def ERR_PDU_NO_DATA_AVAILABLE_def)

theorem serial_query_session_mismatch_witness:
  "handle_serial_query_pdu (quiet_env NO_DIFF) 3
      \<lparr>header = example_header 1 9, serial_number = 42\<rparr> =
     (Returned 0, [ErrorReportPdu 3 1 0 None None, CloseFd 3])"
  using serial_query_session_mismatch
    [of "\<lparr>header = example_header 1 9, serial_number = 42\<rparr>" "quiet_env NO_DIFF" 3]
  by (simp add: quiet_env_def example_header_def ERR_PDU_CORRUPT_DATA_def)

lemma warn_unexpected_pdu_eq:
  "warn_unexpected_pdu env fd pdu name =
     (Returned (- EINVAL),
      [ErrorReportPdu fd (protocol_version pdu) 5 (Some pdu) (Some ''Unexpected PDU received''),
       CloseFd fd])"
  by (simp add: warn_unexpected_pdu_def err_pdu_send_def err_pdu_is_fatal_def Let_def
      ERR_PDU_UNSUP_PDU_TYPE_def ERR_PDU_NO_DATA_AVAILABLE_def)

text \<open>
  C4.  Each handler of a server-to-router PDU (Serial Notify, Cache Response, IPv4 Prefix,
  IPv6 Prefix, End of Data, Cache Reset) writes exactly one PDU, an Error Report with
  code Unsupported PDU Type (5) that carries the offending header, and returns
  \<open>- EINVAL\<close>.  The only other effect is closing the connection the report was written to.
\<close>

theorem server_to_router_pdu_rejected:
  "(let reply = (Returned (- EINVAL),
        [ErrorReportPdu fd (protocol_version pdu) ERR_PDU_UNSUP_PDU_TYPE (Some pdu)
           (Some ''Unexpected PDU received''), CloseFd fd])
    in handle_serial_notify_pdu env fd pdu = reply
     \<and> handle_cache_response_pdu env fd pdu = reply
     \<and> handle_ipv4_prefix_pdu env fd pdu = reply
     \<and> handle_ipv6_prefix_pdu env fd pdu = reply
     \<and> handle_end_of_data_pdu env fd pdu = reply
     \<and> handle_cache_reset_pdu env fd pdu = reply
     \<and> outbound (snd reply) = [ErrorReportPdu fd (protocol_version pdu) 5 (Some pdu)
           (Some ''Unexpected PDU received'')])"
  by (simp add: handle_serial_notify_pdu_def handle_cache_response_pdu_def
      handle_ipv4_prefix_pdu_def handle_ipv6_prefix_pdu_def handle_end_of_data_pdu_def
      handle_cache_reset_pdu_def warn_unexpected_pdu_eq ERR_PDU_UNSUP_PDU_TYPE_def
      outbound_def is_pdu_def)

theorem server_to_router_pdu_rejected_witness:
  "handle_cache_response_pdu (quiet_env NO_DIFF) 3 (example_header 3 7) =
     (Returned (- 22),
      [ErrorReportPdu 3 1 5 (Some (example_header 3 7)) (Some ''Unexpected PDU received''),
       CloseFd 3])"
  using server_to_router_pdu_rejected [of 3 "example_header 3 7" "quiet_env NO_DIFF"]
  by (simp add: Let_def EINVAL_def ERR_PDU_UNSUP_PDU_TYPE_def example_header_def)






subsection \<open>The TAL parser: properties\<close>

lemma char_neq [simp]: "CR \<noteq> LF" "LF \<noteq> CR" "NUL \<noteq> LF" "LF \<noteq> NUL" "NUL \<noteq> CR" "CR \<noteq> NUL"
  by (simp_all add: CR_def LF_def NUL_def)

lemma c_str_plain: "NUL \<notin> set l \<Longrightarrow> c_str l = l"
  by (induction l) (auto simp: c_str_def)

lemma find_newline_line:
  "find_newline fc = Some n \<Longrightarrow> NUL \<notin> set (take n fc) \<and> n < length (c_str fc)
     \<and> (fc ! n = CR \<longrightarrow> Suc n < length (c_str fc))"
proof (induction fc arbitrary: n)
  case Nil
  then show ?case by simp
next
  case (Cons c cs)
  show ?case
  proof (cases "c = LF \<or> (c = CR \<and> (case cs of [] \<Rightarrow> False | d # _ \<Rightarrow> d = LF))")
    case True
    with Cons.prems have "n = 0" by (auto split: if_splits)
    with True Cons.prems show ?thesis
      by (auto simp: c_str_def split: list.splits if_splits)
  next
    case False
    with Cons.prems obtain m where m: "c \<noteq> NUL" "n = Suc m" "find_newline cs = Some m"
      by (auto split: if_splits)
    from Cons.IH [OF m(3)] m(1,2) show ?thesis
      by (auto simp: c_str_def)
  qed
qed

lemma at_end_c_str: "at_end s = (c_str s = [])"
  by (cases s) (auto simp: at_end_def c_str_def)

lemma find_newline_plain:
  "text_line l crlf \<Longrightarrow> find_newline (l @ eol crlf @ rest) = Some (length l)"
proof (induction l)
  case Nil
  then show ?case by (simp add: eol_def)
next
  case (Cons a l)
  from Cons.prems have a: "a \<noteq> LF" "a \<noteq> NUL" and l: "LF \<notin> set l" "NUL \<notin> set l"
    and last_cr: "crlf \<or> last (a # l) \<noteq> CR"
    by (auto simp: text_line_def)
  have "text_line l crlf"
    using l last_cr by (auto simp: text_line_def)
  then have IH: "find_newline (l @ eol crlf @ rest) = Some (length l)"
    by (rule Cons.IH)
  have "\<not> (a = CR \<and> (case l @ eol crlf @ rest of [] \<Rightarrow> False | d # _ \<Rightarrow> d = LF))"
    using l(1) last_cr by (cases l) (auto simp: eol_def)
  then show ?case
    using a IH by simp
qed

lemma nth_eol: "((l @ eol crlf @ rest) ! length l = CR) = crlf"
  by (simp add: eol_def nth_append)

lemma uri_section_line:
  assumes "text_line l crlf"
  shows "uri_section env (l @ eol crlf @ rest) t =
     (if is_blank l then Inr (t, rest)
      else (case add_uri env t l of
              (Some error, t') \<Rightarrow> Inl (error, t')
            | (None, t') \<Rightarrow>
                if at_end rest then Inl (MissingPublicKey, t') else uri_section env rest t'))"
proof -
  have d: "drop (length l + (if crlf then 1 else 0) + 1) (l @ eol crlf @ rest) = rest"
    by (simp add: eol_def)
  have k: "take (length l) (l @ eol crlf @ rest) = l"
    by simp
  show ?thesis
    by (subst uri_section.simps)
       (simp only: find_newline_plain [OF assms] option.case Let_def nth_eol d k)
qed

lemma c_str_scheme [simp]: "c_str ''rsync://'' = ''rsync://''" "c_str ''https://'' = ''https://''"
  by (simp_all add: c_str_def NUL_def)

lemma str_starts_with_plain:
  "NUL \<notin> set l \<Longrightarrow> str_starts_with l ''rsync://'' = prefix ''rsync://'' l"
  "NUL \<notin> set l \<Longrightarrow> str_starts_with l ''https://'' = prefix ''https://'' l"
  by (simp_all add: str_starts_with_def c_str_plain)

lemma add_uri_cases:
  assumes "NUL \<notin> set l"
  shows "add_uri env t l =
     (if accepts env (file_name t) l
      then (None, t\<lparr>uris := uris t @ [created env (file_name t) l]\<rparr>)
      else (Some (rejection env (file_name t) l), t))"
  by (simp add: add_uri_def accepts_def created_def rejection_def c_str_plain [OF assms]
      split_beta)

lemma uri_lines_at_end: "at_end fc \<Longrightarrow> uri_lines fc = []"
  by (subst uri_lines.simps) (cases fc; simp add: at_end_def)

lemma uri_section_first_rejected:
  assumes "dropWhile (passed env (file_name t)) (uri_lines fc) \<noteq> []"
  shows "uri_section env fc t =
     Inl (verdict env (file_name t) (hd (dropWhile (passed env (file_name t)) (uri_lines fc))),
          t\<lparr>uris := uris t
                @ map (created env (file_name t) \<circ> fst)
                    (takeWhile (passed env (file_name t)) (uri_lines fc))\<rparr>)"
  using assms
proof (induction "length fc" arbitrary: fc t rule: less_induct)
  case less
  let ?name = "file_name t"
  show ?case
  proof (cases "find_newline fc")
    case None
    then have ul: "uri_lines fc = (if is_blank fc then [] else [(c_str fc, False)])"
      by (subst uri_lines.simps) simp
    with less.prems have nb: "\<not> is_blank fc"
      by (auto split: if_splits)
    have "uri_section env fc t = Inl (EndsPrematurely (c_str fc), t)"
      using None by (subst uri_section.simps) simp
    then show ?thesis
      using nb by (simp add: ul passed_def verdict_def)
  next
    case (Some n)
    let ?line = "take n fc"
    let ?after = "drop (n + (if fc ! n = CR then 1 else 0) + 1) fc"
    have ul: "uri_lines fc = (if is_blank ?line then [] else (?line, True) # uri_lines ?after)"
      using Some by (subst uri_lines.simps) (simp add: Let_def)
    with less.prems have nb: "\<not> is_blank ?line"
      by (auto split: if_splits)
    have nul: "NUL \<notin> set ?line"
      using find_newline_line [OF Some] by simp
    have shorter: "length ?after < length fc"
      using find_newline_less [OF Some] by simp
    have sec: "uri_section env fc t =
        (case add_uri env t ?line of
           (Some error, t') \<Rightarrow> Inl (error, t')
         | (None, t') \<Rightarrow>
             if at_end ?after then Inl (MissingPublicKey, t') else uri_section env ?after t')"
      by (subst uri_section.simps) (simp only: Some option.case Let_def nb if_False)
    show ?thesis
    proof (cases "accepts env ?name ?line")
      case False
      then show ?thesis
        using nb by (simp add: sec add_uri_cases [OF nul] ul passed_def verdict_def)
    next
      case True
      let ?t1 = "t\<lparr>uris := uris t @ [created env ?name ?line]\<rparr>"
      have rest: "dropWhile (passed env (file_name ?t1)) (uri_lines ?after) \<noteq> []"
        using less.prems nb True by (simp add: ul passed_def)
      then have "uri_lines ?after \<noteq> []"
        by auto
      then have "\<not> at_end ?after"
        using uri_lines_at_end by blast
      then have "uri_section env fc t = uri_section env ?after ?t1"
        using True by (simp add: sec add_uri_cases [OF nul])
      also have "\<dots> =
          Inl (verdict env (file_name ?t1)
                 (hd (dropWhile (passed env (file_name ?t1)) (uri_lines ?after))),
               ?t1\<lparr>uris := uris ?t1
                     @ map (created env (file_name ?t1) \<circ> fst)
                         (takeWhile (passed env (file_name ?t1)) (uri_lines ?after))\<rparr>)"
        by (rule less.hyps [OF shorter rest])
      finally show ?thesis
        using nb True by (simp add: ul passed_def)
    qed
  qed
qed

lemma line_scan_strchr: "line_scan b fc \<Longrightarrow> strchr fc LF \<noteq> None"
  by (induction fc arbitrary: b) (auto split: if_splits)

lemma line_scan_find_newline: "line_scan b fc \<Longrightarrow> find_newline fc \<noteq> None"
  by (induction fc arbitrary: b) (auto split: if_splits)

lemma line_scan_after_strchr:
  "line_scan b fc \<Longrightarrow> strchr fc LF = Some n \<Longrightarrow>
     (if at_end (drop (Suc n) fc) then b \<and> list_all isspace (take n fc)
      else line_scan True (drop (Suc n) fc))"
proof (induction fc arbitrary: b n)
  case Nil
  then show ?case by simp
next
  case (Cons c cs)
  show ?case
  proof (cases "c = LF")
    case True
    with Cons.prems show ?thesis by (auto split: if_splits)
  next
    case False
    with Cons.prems obtain m where m: "c \<noteq> NUL" "n = Suc m" "strchr cs LF = Some m"
      "line_scan (b \<and> isspace c) cs"
      by (auto split: if_splits)
    from Cons.IH [OF m(4,3)] show ?thesis
      by (auto simp: m(2) split: if_splits)
  qed
qed

lemma line_scan_after_newline:
  "line_scan b fc \<Longrightarrow> find_newline fc = Some n \<Longrightarrow>
     \<not> at_end (drop (n + (if fc ! n = CR then 1 else 0) + 1) fc) \<Longrightarrow>
     line_scan True (drop (n + (if fc ! n = CR then 1 else 0) + 1) fc)"
proof (induction fc arbitrary: b n)
  case Nil
  then show ?case by simp
next
  case (Cons c cs)
  show ?case
  proof (cases "c = LF")
    case True
    with Cons.prems show ?thesis by (auto split: if_splits)
  next
    case nlf: False
    show ?thesis
    proof (cases "c = CR \<and> (case cs of [] \<Rightarrow> False | d # _ \<Rightarrow> d = LF)")
      case True
      then obtain cs' where cs: "c = CR" "cs = LF # cs'"
        by (auto split: list.splits)
      have "isspace CR"
        by (simp add: isspace_def CR_def)
      with cs Cons.prems show ?thesis
        by (auto simp: at_end_def split: if_splits)
    next
      case False
      with nlf Cons.prems obtain m where m: "c \<noteq> NUL" "n = Suc m" "find_newline cs = Some m"
        "line_scan (b \<and> isspace c) cs"
        by (auto split: if_splits)
      from Cons.IH [OF m(4,3)] Cons.prems(3) show ?thesis
        by (simp add: m(2))
    qed
  qed
qed

lemma add_uri_error_kind:
  "add_uri env t l = (Some e, t') \<Longrightarrow> e \<noteq> EndsPrematurely s"
  by (auto simp: add_uri_def split_beta split: if_splits)

lemma uri_section_not_premature:
  "line_scan b fc \<Longrightarrow> uri_section env fc t \<noteq> Inl (EndsPrematurely s, t')"
proof (induction "length fc" arbitrary: fc t b rule: less_induct)
  case less
  from line_scan_find_newline [OF less.prems] obtain n where n: "find_newline fc = Some n"
    by auto
  let ?line = "take n fc"
  let ?after = "drop (n + (if fc ! n = CR then 1 else 0) + 1) fc"
  have shorter: "length ?after < length fc"
    using find_newline_less [OF n] by simp
  have sec: "uri_section env fc t =
      (if is_blank ?line then Inr (t, ?after)
       else (case add_uri env t ?line of
           (Some error, t1) \<Rightarrow> Inl (error, t1)
         | (None, t1) \<Rightarrow>
             if at_end ?after then Inl (MissingPublicKey, t1) else uri_section env ?after t1))"
    by (subst uri_section.simps) (simp only: n option.case Let_def)
  obtain r t1 where a: "add_uri env t ?line = (r, t1)"
    by (cases "add_uri env t ?line")
  show ?case
  proof (cases "is_blank ?line")
    case True
    then show ?thesis by (simp add: sec)
  next
    case nb: False
    show ?thesis
    proof (cases r)
      case (Some e)
      then show ?thesis
        using nb a add_uri_error_kind [of env t ?line e t1 s] by (simp add: sec)
    next
      case None
      show ?thesis
      proof (cases "at_end ?after")
        case True
        then show ?thesis using nb a None by (simp add: sec)
      next
        case False
        from line_scan_after_newline [OF less.prems n False]
        have "uri_section env ?after t1 \<noteq> Inl (EndsPrematurely s, t')"
          by (rule less.hyps [OF shorter])
        then show ?thesis using nb a None False by (simp add: sec)
      qed
    qed
  qed
qed

lemma not_space_hash [simp]: "\<not> isspace CHR ''#''"
  by (simp add: isspace_def)

lemma skip_comments_blank_end:
  "line_scan True fc \<Longrightarrow> \<exists>body b. skip_comments fc = Inr body \<and> line_scan b body"
proof (induction "length fc" arbitrary: fc rule: less_induct)
  case less
  then obtain c cs where fc: "fc = c # cs"
    by (cases fc) auto
  show ?case
  proof (cases "c = CHR ''#''")
    case False
    then have "skip_comments fc = Inr fc"
      by (subst skip_comments.simps) (simp add: fc)
    with less.prems show ?thesis by blast
  next
    case True
    from line_scan_strchr [OF less.prems] obtain n where n: "strchr fc LF = Some n"
      by auto
    have n0: "n \<noteq> 0"
      using n True by (auto simp: fc LF_def split: if_splits)
    then have "\<not> list_all isspace (take n fc)"
      using True by (cases n) (simp_all add: fc)
    with line_scan_after_strchr [OF less.prems n]
    have next_line: "line_scan True (drop (Suc n) fc)"
      by (auto split: if_splits)
    have "length (drop (Suc n) fc) < length fc"
      by (simp add: fc)
    from less.hyps [OF this next_line] obtain body b where
      "skip_comments (drop (Suc n) fc) = Inr body" "line_scan b body"
      by blast
    moreover have "skip_comments fc = skip_comments (drop (Suc n) fc)"
      using True n by (subst skip_comments.simps) (simp add: fc)
    ultimately show ?thesis by auto
  qed
qed

lemma read_content_not_premature:
  assumes "ends_at_blank_line fc"
  shows "fst (read_content env fc t) \<noteq> Some (EndsPrematurely s)"
proof -
  from skip_comments_blank_end [OF assms [unfolded ends_at_blank_line_def]]
  obtain body b where body: "skip_comments fc = Inr body" "line_scan b body"
    by blast
  show ?thesis
  proof (cases "uri_section env body t")
    case (Inl x)
    then obtain e t' where x: "x = (e, t')" by (cases x)
    with Inl uri_section_not_premature [OF body(2), of env t s t'] have "e \<noteq> EndsPrematurely s"
      by auto
    then show ?thesis by (simp add: read_content_def body(1) Inl x)
  next
    case (Inr y)
    then show ?thesis
      by (cases y) (simp add: read_content_def body(1) split: option.split)
  qed
qed

lemma strchr_comment:
  "LF \<notin> set c \<Longrightarrow> NUL \<notin> set c \<Longrightarrow> strchr (c @ LF # rest) LF = Some (length c)"
  by (induction c) auto

lemma skip_comments_block:
  assumes "\<forall>c\<in>set cs. is_comment c"
  shows "skip_comments (comment_block cs @ body) = skip_comments body"
  using assms
proof (induction cs)
  case Nil
  then show ?case by (simp add: comment_block_def)
next
  case (Cons c cs)
  then obtain c' where c: "c = CHR ''#'' # c'" "LF \<notin> set c" "NUL \<notin> set c"
    by (auto simp: is_comment_def prefix_def)
  have shape: "comment_block (c # cs) @ body = c @ LF # (comment_block cs @ body)"
    by (simp add: comment_block_def)
  have "skip_comments (c @ LF # (comment_block cs @ body))
      = skip_comments (drop (length c + 1) (c @ LF # (comment_block cs @ body)))"
    using strchr_comment [OF c(2,3), of "comment_block cs @ body"]
    by (subst skip_comments.simps) (simp add: c(1) del: strchr.simps)
  also have "\<dots> = skip_comments (comment_block cs @ body)"
    by simp
  finally show ?case
    using Cons by (simp add: shape)
qed

lemma accepted_head:
  assumes "NUL \<notin> set l" and "accepts env name l"
  shows "\<exists>cs. l = CHR ''r'' # cs \<or> l = CHR ''h'' # cs"
proof -
  from assms have "prefix ''rsync://'' l \<or> prefix ''https://'' l"
    by (auto simp: accepts_def str_starts_with_plain split: if_splits)
  then show ?thesis
    by (auto simp: prefix_def)
qed

lemma accepted_not_blank:
  assumes "NUL \<notin> set l" and "accepts env name l"
  shows "\<not> is_blank l"
  using accepted_head [OF assms] by (auto simp: isspace_def NUL_def)

lemma accepted_lines_head:
  assumes "\<forall>ln\<in>set ls. text_line (fst ln) (snd ln) \<and> accepts env name (fst ln)" and "ls \<noteq> []"
  shows "\<exists>cs. text_lines ls @ rest = CHR ''r'' # cs \<or> text_lines ls @ rest = CHR ''h'' # cs"
proof -
  from assms(2) obtain l c ls' where ls: "ls = (l, c) # ls'"
    by (cases ls) auto
  with assms(1) have "NUL \<notin> set l" "accepts env name l"
    by (auto simp: text_line_def)
  from accepted_head [OF this] show ?thesis
    by (auto simp: ls text_lines_def)
qed

lemma uri_section_accepted_lines:
  assumes "\<forall>ln\<in>set ls. text_line (fst ln) (snd ln) \<and> accepts env (file_name t) (fst ln)"
    and "\<not> at_end rest"
  shows "uri_section env (text_lines ls @ rest) t =
     uri_section env rest (t\<lparr>uris := uris t @ map (created env (file_name t) \<circ> fst) ls\<rparr>)"
  using assms(1)
proof (induction ls arbitrary: t)
  case Nil
  then show ?case by (simp add: text_lines_def)
next
  case (Cons ln ls)
  obtain l c where ln: "ln = (l, c)" by (cases ln)
  from Cons.prems have l: "text_line l c" "accepts env (file_name t) l"
    and ls: "\<forall>ln\<in>set ls. text_line (fst ln) (snd ln) \<and> accepts env (file_name t) (fst ln)"
    by (simp_all add: ln)
  have nul: "NUL \<notin> set l"
    using l(1) by (simp add: text_line_def)
  let ?t1 = "t\<lparr>uris := uris t @ [created env (file_name t) l]\<rparr>"
  have shape: "text_lines (ln # ls) @ rest = l @ eol c @ (text_lines ls @ rest)"
    by (simp add: text_lines_def ln)
  have more: "\<not> at_end (text_lines ls @ rest)"
  proof (cases "ls = []")
    case True
    then show ?thesis using assms(2) by (simp add: text_lines_def)
  next
    case False
    from accepted_lines_head [OF ls False, of rest] show ?thesis
      by (auto simp: at_end_def NUL_def)
  qed
  have "uri_section env (text_lines (ln # ls) @ rest) t
      = uri_section env (text_lines ls @ rest) ?t1"
    using l(2) more accepted_not_blank [OF nul l(2)]
    by (simp add: shape uri_section_line [OF l(1)] add_uri_cases [OF nul])
  also have "\<dots> = uri_section env rest
      (?t1\<lparr>uris := uris ?t1 @ map (created env (file_name ?t1) \<circ> fst) ls\<rparr>)"
    by (rule Cons.IH) (use ls in simp)
  finally show ?case
    by (simp add: ln comp_def)
qed

lemma read_content_blank_line_end:
  assumes "ls \<noteq> []" and "\<forall>c\<in>set cs. is_comment c"
    and "\<forall>ln\<in>set ls. text_line (fst ln) (snd ln) \<and> accepts env (file_name t) (fst ln)"
    and "text_line b crlf" and "is_blank b" and "at_end rest"
  shows "read_content env (comment_block cs @ text_lines ls @ b @ eol crlf @ rest) t =
     (case base64_decode env [] of
        None \<Rightarrow> (Some CannotDecodeKey,
                 t\<lparr>uris := uris t @ map (created env (file_name t) \<circ> fst) ls\<rparr>)
      | Some bytes \<Rightarrow>
          (None, t\<lparr>uris := uris t @ map (created env (file_name t) \<circ> fst) ls,
                   spki := bytes\<rparr>))"
proof -
  let ?tail = "b @ eol crlf @ rest"
  let ?body = "text_lines ls @ ?tail"
  from accepted_lines_head [OF assms(3,1), of ?tail]
  have "skip_comments ?body = Inr ?body"
    by (subst skip_comments.simps) auto
  then have skip: "skip_comments (comment_block cs @ ?body) = Inr ?body"
    by (simp add: skip_comments_block [OF assms(2)])
  have "\<not> at_end ?tail"
    using assms(4) by (cases b) (auto simp: at_end_def eol_def text_line_def)
  then have "uri_section env ?body t =
      uri_section env ?tail (t\<lparr>uris := uris t @ map (created env (file_name t) \<circ> fst) ls\<rparr>)"
    by (rule uri_section_accepted_lines [OF assms(3)])
  also have "\<dots> = Inr (t\<lparr>uris := uris t @ map (created env (file_name t) \<circ> fst) ls\<rparr>, rest)"
    using assms(5) by (simp add: uri_section_line [OF assms(4)])
  finally have sec: "uri_section env ?body t =
      Inr (t\<lparr>uris := uris t @ map (created env (file_name t) \<circ> fst) ls\<rparr>, rest)" .
  have key: "c_str rest = []"
    using assms(6) by (simp add: at_end_c_str)
  show ?thesis
    using assms(1) by (simp add: read_content_def skip sec key split: option.split)
qed

lemma line_scan_line:
  "LF \<notin> set l \<Longrightarrow> NUL \<notin> set l \<Longrightarrow>
     line_scan f (l @ LF # rest) = (if at_end rest then f \<and> list_all isspace l else line_scan True rest)"
  by (induction l arbitrary: f) auto

lemma at_end_append: "NUL \<notin> set x \<Longrightarrow> at_end (x @ y) = (x = [] \<and> at_end y)"
  by (cases x) (auto simp: at_end_def)

lemma line_scan_eol:
  assumes "text_line l crlf"
  shows "line_scan f (l @ eol crlf @ rest) =
     (if at_end rest then f \<and> list_all isspace l else line_scan True rest)"
proof (cases crlf)
  case True
  have "line_scan f ((l @ [CR]) @ LF # rest) =
      (if at_end rest then f \<and> list_all isspace (l @ [CR]) else line_scan True rest)"
    using assms by (intro line_scan_line) (simp_all add: text_line_def)
  then show ?thesis
    using True by (simp add: eol_def isspace_def CR_def)
next
  case False
  then show ?thesis
    using assms line_scan_line [of l f rest] by (simp add: eol_def text_line_def)
qed

lemma blank_plain_line: "NUL \<notin> set b \<Longrightarrow> is_blank b = list_all isspace b"
  by (induction b) auto

lemma line_scan_lines:
  assumes "\<forall>ln\<in>set ls. text_line (fst ln) (snd ln)" and "NUL \<notin> set b"
  shows "line_scan True (text_lines ls @ b @ eol crlf @ rest)
      = line_scan True (b @ eol crlf @ rest)"
  using assms(1)
proof (induction ls)
  case Nil
  then show ?case by (simp add: text_lines_def)
next
  case (Cons ln ls)
  obtain l c where ln: "ln = (l, c)" by (cases ln)
  let ?more = "text_lines ls @ b @ eol crlf @ rest"
  have "\<not> at_end ?more"
  proof (cases ls)
    case Nil
    then show ?thesis
      using assms(2) by (simp add: text_lines_def at_end_append) (simp add: eol_def at_end_def)
  next
    case (Cons ln' ls')
    obtain l' c' where "ln' = (l', c')" by (cases ln')
    moreover from this Cons Cons.prems have "NUL \<notin> set l'"
      by (simp add: text_line_def)
    ultimately show ?thesis
      using Cons by (simp add: text_lines_def at_end_append) (simp add: eol_def at_end_def)
  qed
  moreover have "text_line l c"
    using Cons.prems by (simp add: ln)
  ultimately have "line_scan True (l @ eol c @ ?more) = line_scan True ?more"
    by (simp add: line_scan_eol)
  then show ?case
    using Cons by (simp add: text_lines_def ln)
qed

lemma line_scan_comments:
  assumes "\<forall>c\<in>set cs. is_comment c" and "\<not> at_end body"
  shows "line_scan True (comment_block cs @ body) = line_scan True body"
  using assms(1)
proof (induction cs)
  case Nil
  then show ?case by (simp add: comment_block_def)
next
  case (Cons c cs)
  then have c: "LF \<notin> set c" "NUL \<notin> set c"
    by (simp_all add: is_comment_def)
  let ?more = "comment_block cs @ body"
  have "\<not> at_end ?more"
  proof (cases cs)
    case Nil
    then show ?thesis using assms(2) by (simp add: comment_block_def)
  next
    case (Cons c' cs')
    with Cons.prems have "NUL \<notin> set c'"
      by (simp add: is_comment_def)
    then show ?thesis
      using Cons by (simp add: comment_block_def at_end_append) (simp add: at_end_def)
  qed
  then have "line_scan True (c @ LF # ?more) = line_scan True ?more"
    by (simp add: line_scan_line [OF c])
  then show ?case
    using Cons by (simp add: comment_block_def)
qed

lemma blank_line_end_shape:
  assumes "\<forall>c\<in>set cs. is_comment c" and "\<forall>ln\<in>set ls. text_line (fst ln) (snd ln)"
    and "text_line b crlf" and "is_blank b" and "at_end rest"
  shows "ends_at_blank_line (comment_block cs @ text_lines ls @ b @ eol crlf @ rest)"
proof -
  have nul: "NUL \<notin> set b"
    using assms(3) by (simp add: text_line_def)
  have last_line: "line_scan True (b @ eol crlf @ rest)"
    using assms(4,5) by (simp add: line_scan_eol [OF assms(3)] blank_plain_line [OF nul])
  then have "line_scan True (text_lines ls @ b @ eol crlf @ rest)"
    by (simp add: line_scan_lines [OF assms(2) nul])
  moreover from this have "\<not> at_end (text_lines ls @ b @ eol crlf @ rest)"
    by (cases "text_lines ls @ b @ eol crlf @ rest") (auto simp: at_end_def)
  ultimately show ?thesis
    by (simp add: ends_at_blank_line_def line_scan_comments [OF assms(1)])
qed

text \<open>
  C7, as the code has it.  Parsing a TAL text that ends at the blank separator line (its
  last line feed ends a line of white space only, and the C string ends there) never
  reports "The TAL seems to end prematurely", whatever the text before that line.  When
  the text before the blank line is comment lines followed by one or more URI lines that
  \<^verbatim>\<open>add_uri\<close> accepts, each line ended by LF or by CRLF, the text ends at the blank line
  in this sense, the empty remainder goes to \<^verbatim>\<open>base64_decode\<close>, and the parse fails
  exactly when the decoder rejects the empty text: the error is then "Cannot decode the
  public key", and otherwise there is none; in both cases the TAL holds the URIs of the
  lines, in order.
\<close>

theorem tal_without_key_outcome:
  "(ends_at_blank_line fc \<longrightarrow> (\<forall>s. fst (read_content env fc t) \<noteq> Some (EndsPrematurely s)))
   \<and> (ls \<noteq> [] \<and> (\<forall>c\<in>set cs. is_comment c)
        \<and> (\<forall>ln\<in>set ls. text_line (fst ln) (snd ln) \<and> accepts env (file_name t) (fst ln))
        \<and> text_line b crlf \<and> is_blank b \<and> at_end rest \<longrightarrow>
      ends_at_blank_line (comment_block cs @ text_lines ls @ b @ eol crlf @ rest)
      \<and> read_content env (comment_block cs @ text_lines ls @ b @ eol crlf @ rest) t =
          (case base64_decode env [] of
             None \<Rightarrow> (Some CannotDecodeKey,
                      t\<lparr>uris := uris t @ map (created env (file_name t) \<circ> fst) ls\<rparr>)
           | Some bytes \<Rightarrow>
               (None, t\<lparr>uris := uris t @ map (created env (file_name t) \<circ> fst) ls,
                        spki := bytes\<rparr>)))"
proof (intro conjI impI allI)
  fix s
  assume "ends_at_blank_line fc"
  then show "fst (read_content env fc t) \<noteq> Some (EndsPrematurely s)"
    by (rule read_content_not_premature)
next
  assume shape: "ls \<noteq> [] \<and> (\<forall>c\<in>set cs. is_comment c)
        \<and> (\<forall>ln\<in>set ls. text_line (fst ln) (snd ln) \<and> accepts env (file_name t) (fst ln))
        \<and> text_line b crlf \<and> is_blank b \<and> at_end rest"
  then show "ends_at_blank_line (comment_block cs @ text_lines ls @ b @ eol crlf @ rest)"
    by (intro blank_line_end_shape) simp_all
next
  assume shape: "ls \<noteq> [] \<and> (\<forall>c\<in>set cs. is_comment c)
        \<and> (\<forall>ln\<in>set ls. text_line (fst ln) (snd ln) \<and> accepts env (file_name t) (fst ln))
        \<and> text_line b crlf \<and> is_blank b \<and> at_end rest"
  then show "read_content env (comment_block cs @ text_lines ls @ b @ eol crlf @ rest) t =
          (case base64_decode env [] of
             None \<Rightarrow> (Some CannotDecodeKey,
                      t\<lparr>uris := uris t @ map (created env (file_name t) \<circ> fst) ls\<rparr>)
           | Some bytes \<Rightarrow>
               (None, t\<lparr>uris := uris t @ map (created env (file_name t) \<circ> fst) ls,
                        spki := bytes\<rparr>))"
    by (intro read_content_blank_line_end) simp_all
qed

theorem tal_without_key_outcome_witness:
  "ends_at_blank_line (''# ARIN'' @ [LF] @ ''rsync://rpki.example.net/ta.cer'' @ [CR, LF]
        @ ''https://rpki.example.net/ta.cer'' @ [LF] @ '' '' @ [LF])
   \<and> (\<forall>s. fst (read_content (plain_env [] None)
          (''# ARIN'' @ [LF] @ ''rsync://rpki.example.net/ta.cer'' @ [CR, LF]
            @ ''https://rpki.example.net/ta.cer'' @ [LF] @ '' '' @ [LF])
          (empty_tal ''arin.tal'')) \<noteq> Some (EndsPrematurely s))
   \<and> read_content (plain_env [] None)
        (''# ARIN'' @ [LF] @ ''rsync://rpki.example.net/ta.cer'' @ [CR, LF]
          @ ''https://rpki.example.net/ta.cer'' @ [LF] @ '' '' @ [LF])
        (empty_tal ''arin.tal'')
     = (Some CannotDecodeKey,
        \<lparr>file_name = ''arin.tal'',
         uris = [\<lparr>uri_tal = ''arin.tal'', uri_kind = UT_RSYNC,
                  uri_global = ''rsync://rpki.example.net/ta.cer''\<rparr>,
                 \<lparr>uri_tal = ''arin.tal'', uri_kind = UT_HTTPS,
                  uri_global = ''https://rpki.example.net/ta.cer''\<rparr>],
         spki = [], cache = None\<rparr>)"
  using tal_without_key_outcome [where
      fc = "''# ARIN'' @ [LF] @ ''rsync://rpki.example.net/ta.cer'' @ [CR, LF]
        @ ''https://rpki.example.net/ta.cer'' @ [LF] @ '' '' @ [LF]"
      and env = "plain_env [] None"
      and t = "empty_tal ''arin.tal''" and cs = "[''# ARIN'']"
      and ls = "[(''rsync://rpki.example.net/ta.cer'', True),
                 (''https://rpki.example.net/ta.cer'', False)]"
      and b = "'' ''" and crlf = False and rest = "[]"]
  by (simp add: is_comment_def text_line_def accepts_def created_def str_starts_with_def
      c_str_def plain_env_def empty_tal_def comment_block_def text_lines_def eol_def at_end_def
      isspace_def LF_def CR_def NUL_def)

text \<open>
  C7 as the specification states it, a premature-end failure for a file that ends at the
  blank line, does not hold: for one URI line followed by the blank line the parser
  reports "Cannot decode the public key" when the decoder rejects the empty text, and
  reports no error at all when the decoder accepts it.
\<close>

theorem tal_ending_at_blank_line_counterexample:
  "ends_at_blank_line (''rsync://rpki.example.net/ta.cer'' @ [LF, LF])
   \<and> read_content (plain_env [] None) (''rsync://rpki.example.net/ta.cer'' @ [LF, LF])
       (empty_tal ''arin.tal'')
     = (Some CannotDecodeKey,
        \<lparr>file_name = ''arin.tal'',
         uris = [\<lparr>uri_tal = ''arin.tal'', uri_kind = UT_RSYNC,
                  uri_global = ''rsync://rpki.example.net/ta.cer''\<rparr>],
         spki = [], cache = None\<rparr>)
   \<and> fst (read_content (plain_env [] (Some [])) (''rsync://rpki.example.net/ta.cer'' @ [LF, LF])
       (empty_tal ''arin.tal'')) = None"
  by code_simp

text \<open>
  C8.  For every TAL file that could be loaded and whose URI block has a line beginning
  with neither \<^verbatim>\<open>rsync://\<close> nor \<^verbatim>\<open>https://\<close>, \<^verbatim>\<open>tal_init\<close> fails and produces no TAL.
  The error is the verdict on the first line of the block that the parser does not pass
  (the offending line itself when every line before it is accepted, and then the error is
  "TAL has non-RSYNC/HTTPS URI"), and the URIs released by \<^verbatim>\<open>uris_cleanup\<close> are exactly
  the ones created for the lines passed before it.
\<close>

theorem tal_foreign_uri_rejected:
  assumes "file_load env path = (0, fc)" and "ln \<in> set (uri_block fc)"
    and "\<not> str_starts_with (fst ln) ''rsync://''" and "\<not> str_starts_with (fst ln) ''https://''"
  shows "tal_init env path =
     Inl (verdict env (base_name path)
            (hd (dropWhile (passed env (base_name path)) (uri_block fc))),
          map (created env (base_name path) \<circ> fst)
            (takeWhile (passed env (base_name path)) (uri_block fc)))"
proof (cases "skip_comments fc")
  case (Inl e)
  then show ?thesis
    using assms(2) by (simp add: uri_block_def)
next
  case (Inr body)
  let ?t = "\<lparr>file_name = base_name path, uris = [], spki = [], cache = None\<rparr>"
  have block: "uri_block fc = uri_lines body"
    by (simp add: uri_block_def Inr)
  have "\<not> passed env (base_name path) ln"
    using assms(3,4) by (simp add: passed_def accepts_def)
  then have "dropWhile (passed env (file_name ?t)) (uri_lines body) \<noteq> []"
    using assms(2) by (auto simp: block dropWhile_eq_Nil_conv)
  from uri_section_first_rejected [OF this]
  show ?thesis
    by (simp add: tal_init_def assms(1) read_content_def Inr block Let_def)
qed

theorem tal_foreign_uri_rejected_witness:
  "uri_block (''# ARIN'' @ [LF] @ ''rsync://rpki.example.net/ta.cer'' @ [CR, LF]
        @ ''ftp://rpki.example.net/ta.cer'' @ [LF] @ [LF] @ ''MIIB'')
     = [(''rsync://rpki.example.net/ta.cer'', True), (''ftp://rpki.example.net/ta.cer'', True)]
   \<and> tal_init (plain_env (''# ARIN'' @ [LF] @ ''rsync://rpki.example.net/ta.cer'' @ [CR, LF]
        @ ''ftp://rpki.example.net/ta.cer'' @ [LF] @ [LF] @ ''MIIB'') None) ''/etc/tal/arin.tal''
     = Inl (NonRsyncHttpsUri ''ftp://rpki.example.net/ta.cer'',
            [\<lparr>uri_tal = ''arin.tal'', uri_kind = UT_RSYNC,
              uri_global = ''rsync://rpki.example.net/ta.cer''\<rparr>])"
proof -
  let ?fc = "''# ARIN'' @ [LF] @ ''rsync://rpki.example.net/ta.cer'' @ [CR, LF]
        @ ''ftp://rpki.example.net/ta.cer'' @ [LF] @ [LF] @ ''MIIB''"
  let ?env = "plain_env ?fc None"
  have block: "uri_block ?fc
      = [(''rsync://rpki.example.net/ta.cer'', True), (''ftp://rpki.example.net/ta.cer'', True)]"
    by code_simp
  have loaded: "file_load ?env ''/etc/tal/arin.tal'' = (0, ?fc)"
    by (simp add: plain_env_def)
  have member: "(''ftp://rpki.example.net/ta.cer'', True) \<in> set (uri_block ?fc)"
    unfolding block by simp
  have scheme: "\<not> str_starts_with (fst (''ftp://rpki.example.net/ta.cer'', True)) ''rsync://''"
    "\<not> str_starts_with (fst (''ftp://rpki.example.net/ta.cer'', True)) ''https://''"
    by code_simp+
  have name: "base_name ''/etc/tal/arin.tal'' = ''arin.tal''"
    by code_simp
  have first: "passed ?env ''arin.tal'' (''rsync://rpki.example.net/ta.cer'', True)"
    by code_simp
  have second: "\<not> passed ?env ''arin.tal'' (''ftp://rpki.example.net/ta.cer'', True)"
    by code_simp
  have err: "verdict ?env ''arin.tal'' (''ftp://rpki.example.net/ta.cer'', True)
      = NonRsyncHttpsUri ''ftp://rpki.example.net/ta.cer''"
    by code_simp
  have uri: "created ?env ''arin.tal'' ''rsync://rpki.example.net/ta.cer''
      = \<lparr>uri_tal = ''arin.tal'', uri_kind = UT_RSYNC,
         uri_global = ''rsync://rpki.example.net/ta.cer''\<rparr>"
    by code_simp
  from tal_foreign_uri_rejected [OF loaded member scheme]
  have "tal_init ?env ''/etc/tal/arin.tal''
     = Inl (NonRsyncHttpsUri ''ftp://rpki.example.net/ta.cer'',
            [\<lparr>uri_tal = ''arin.tal'', uri_kind = UT_RSYNC,
              uri_global = ''rsync://rpki.example.net/ta.cer''\<rparr>])"
    by (simp only: block name dropWhile.simps takeWhile.simps first second if_True if_False
        list.sel list.map comp_apply fst_conv err uri)
  with block show ?thesis
    by (rule conjI)
qed

subsection \<open>Validation of a TAL\<close>

lemma handle_deferred_returns_0:
  "handle_deferred env fuel w = Some (r, w') \<Longrightarrow> r = Returned 0"
proof (induction fuel arbitrary: w)
  case 0
  then show ?case by simp
next
  case (Suc fuel)
  show ?case
  proof (cases "certstack (w_state w)")
    case Nil
    with Suc.prems show ?thesis by (simp add: deferstack_pop_def)
  next
    case (Cons d stack)
    with Suc.prems show ?thesis
      by (auto simp: deferstack_pop_def split_beta Let_def dest: Suc.IH)
  qed
qed

lemma handle_deferred_exhausted:
  "certstack (w_state (after_rounds env n w)) = [] \<Longrightarrow> n < fuel \<Longrightarrow>
     handle_deferred env fuel w = Some (Returned 0, after_rounds env n w)"
proof (induction n arbitrary: fuel w)
  case 0
  then obtain f where "fuel = Suc f" by (cases fuel) auto
  with 0 show ?case by (simp add: deferstack_pop_def)
next
  case (Suc n)
  then obtain f where f: "fuel = Suc f" "n < f" by (cases fuel) auto
  show ?case
  proof (cases "certstack (w_state w)")
    case Nil
    then show ?thesis by (simp add: f deferstack_pop_def)
  next
    case (Cons d stack)
    with Suc.prems(1) Suc.IH [OF _ f(2)] show ?thesis
      by (simp add: f deferstack_pop_def split_beta Let_def)
  qed
qed

text \<open>
  C5.  When the validation state was prepared, the URI names a certificate and the
  traversal of the root certificate succeeded, \<^verbatim>\<open>handle_tal_uri\<close> never returns an error:
  whatever the traversals of the deferred certificates return, a run that returns,
  returns 0.  And it does return 0 once the deferred stack is exhausted: if the stack is
  empty after \<open>n\<close> rounds of pop and traverse, any fuel above \<open>n\<close> gives the result 0,
  the pop on the empty stack (\<^verbatim>\<open>-ENOENT\<close>) ending the loop.  So an error returned by
  \<^verbatim>\<open>handle_tal_uri\<close> comes from the root stage (preparing the state, the check of the root
  URI, the traversal of the root certificate).
\<close>

theorem deferred_errors_swallowed:
  assumes "validation_prepare env t = (0, state)" and "uri_is_certificate env uri"
    and "certificate_traverse env None uri (state, db) = (0, v1, db1)"
  defines "w1 \<equiv> \<lparr>w_state = v1, w_db = db1, w_traversed = [(None, uri)]\<rparr>"
  shows "(\<forall>e db' tr. handle_tal_uri env fuel t uri db = Some (Returned e, db', tr) \<longrightarrow> e = 0)
       \<and> (\<not> certstack_null v1 \<and> certstack (w_state (after_rounds env n w1)) = [] \<and> n < fuel \<longrightarrow>
            handle_tal_uri env fuel t uri db =
              Some (Returned 0, w_db (after_rounds env n w1), w_traversed (after_rounds env n w1)))"
proof -
  have h: "handle_tal_uri env fuel t uri db =
      (if certstack_null v1
       then Some (Critical ''Validation state has no certificate stack'', db1, [(None, uri)])
       else map_option (\<lambda>(r, w'). (r, w_db w', w_traversed w')) (handle_deferred env fuel w1))"
    using assms(1-3) by (simp add: handle_tal_uri_def traverse_def w1_def)
  show ?thesis
  proof (intro conjI allI impI)
    fix e db' tr
    assume "handle_tal_uri env fuel t uri db = Some (Returned e, db', tr)"
    then obtain w' where "handle_deferred env fuel w1 = Some (Returned e, w')"
      unfolding h by (auto split: if_splits)
    from handle_deferred_returns_0 [OF this] show "e = 0" by simp
  next
    assume a: "\<not> certstack_null v1 \<and> certstack (w_state (after_rounds env n w1)) = [] \<and> n < fuel"
    then have "handle_deferred env fuel w1 = Some (Returned 0, after_rounds env n w1)"
      by (simp add: handle_deferred_exhausted)
    with a show "handle_tal_uri env fuel t uri db =
        Some (Returned 0, w_db (after_rounds env n w1), w_traversed (after_rounds env n w1))"
      unfolding h by simp
  qed
qed

theorem deferred_errors_swallowed_witness:
  "handle_tal_uri (example_val_env 0) 5 (empty_tal ''arin.tal'')
       (example_uri ''rsync://rpki.example.net/ta.cer'') []
     = Some (Returned 0, [''AS64496 192.0.2.0/24'', ''AS64497 198.51.100.0/24''],
         [(None, example_uri ''rsync://rpki.example.net/ta.cer''),
          (Some 1, example_uri ''rsync://rpki.example.net/repo/bad.cer''),
          (Some 1, example_uri ''rsync://rpki.example.net/repo/ca.cer'')])"
  using deferred_errors_swallowed [of "example_val_env 0" "empty_tal ''arin.tal''"
      "\<lparr>certstack_null = False, certstack = [], pubkey_state = PKS_UNTESTED\<rparr>"
      "example_uri ''rsync://rpki.example.net/ta.cer''" "[]"
      "\<lparr>certstack_null = False,
        certstack = [\<lparr>d_uri = example_uri ''rsync://rpki.example.net/repo/bad.cer'', d_pp = 1\<rparr>,
                     \<lparr>d_uri = example_uri ''rsync://rpki.example.net/repo/ca.cer'', d_pp = 1\<rparr>],
        pubkey_state = PKS_VALID\<rparr>"
      "[''AS64496 192.0.2.0/24'']" 5 2]
  by (simp add: example_val_env_def example_uri_def suffix_to_prefix traverse_def
      numeral_2_eq_2)

text \<open>
  C10, as the code has it.  For a URI that \<^verbatim>\<open>uri_is_certificate\<close> rejects (no \<^verbatim>\<open>.cer\<close>
  extension), \<^verbatim>\<open>handle_tal_uri\<close> fails without any call of \<^verbatim>\<open>certificate_traverse\<close>
  and leaves the table as it was, for any fuel: with the error \<open>EINVAL\<close> when
  \<^verbatim>\<open>validation_prepare\<close> returned 0, and with the code of \<^verbatim>\<open>validation_prepare\<close>, made
  negative, when it did not.  The function is \<^verbatim>\<open>cache_download_alt\<close>'s callback, so the
  URI it gets has been downloaded.
\<close>


theorem non_certificate_uri_rejected:
  assumes "\<not> uri_is_certificate env uri"
  shows "handle_tal_uri env fuel t uri db =
           Some (Returned (if fst (validation_prepare env t) = 0 then EINVAL
                           else ENSURE_NEGATIVE (fst (validation_prepare env t))), db, [])
       \<and> (if fst (validation_prepare env t) = 0 then EINVAL
          else ENSURE_NEGATIVE (fst (validation_prepare env t))) \<noteq> 0"
  using assms
  by (auto simp: handle_tal_uri_def split_beta ENSURE_NEGATIVE_def EINVAL_def)

theorem non_certificate_uri_rejected_witness:
  "handle_tal_uri (example_val_env 0) 5 (empty_tal ''arin.tal'')
       (example_uri ''rsync://rpki.example.net/ta.txt'') [] = Some (Returned 22, [], [])
   \<and> handle_tal_uri failing_prepare_env 5 (empty_tal ''arin.tal'')
       (example_uri ''rsync://rpki.example.net/ta.txt'') [] = Some (Returned (- 12), [], [])"
  using non_certificate_uri_rejected [of "example_val_env 0"
      "example_uri ''rsync://rpki.example.net/ta.txt''" 5 "empty_tal ''arin.tal''" "[]"]
    non_certificate_uri_rejected [of failing_prepare_env
      "example_uri ''rsync://rpki.example.net/ta.txt''" 5 "empty_tal ''arin.tal''" "[]"]
  by (auto simp: failing_prepare_env_def example_val_env_def example_uri_def suffix_to_prefix
      EINVAL_def ENSURE_NEGATIVE_def)

text \<open>
  C10 as the specification states it, \<open>EINVAL\<close> for every URI without the \<^verbatim>\<open>.cer\<close>
  extension, does not hold: \<^verbatim>\<open>validation_prepare\<close> runs before the check of the
  extension, and when it fails with code 12 the URI \<^verbatim>\<open>ta.txt\<close> is answered with \<open>-12\<close>.
\<close>

theorem non_certificate_uri_prepare_counterexample:
  "\<not> uri_is_certificate failing_prepare_env (example_uri ''rsync://rpki.example.net/ta.txt'')
   \<and> handle_tal_uri failing_prepare_env 5 (empty_tal ''arin.tal'')
       (example_uri ''rsync://rpki.example.net/ta.txt'') [] = Some (Returned (- 12), [], [])
   \<and> - 12 \<noteq> EINVAL"
  by (simp add: handle_tal_uri_def failing_prepare_env_def example_val_env_def example_uri_def
      suffix_to_prefix EINVAL_def ENSURE_NEGATIVE_def)

lemma worker_error_keeps_db_null:
  assumes "do_file_validation env fuel thread h = Some (Returned (thread', h'))"
    and "thr_error thread' \<noteq> 0" and "thr_db thread = None"
  shows "thr_db thread' = None \<and> live h' \<subseteq> live h"
  using assms
  by (auto simp: do_file_validation_def db_table_create_def db_table_destroy_def Let_def
      split: sum.splits option.splits outcome.splits if_splits prod.splits)

lemma successful_worker_own_table:
  assumes "do_file_validation env fuel thread h = Some (Returned (thread', h'))"
    and "tal_init (parser env) (thr_tal_file thread) = Inr t" and "thr_error thread' = 0"
  shows "thr_db thread' = Some (next_ref h) \<and> next_ref h \<in> live h'"
  using assms
  by (auto simp: do_file_validation_def db_table_create_def db_table_destroy_def Let_def
      split: option.splits outcome.splits if_splits prod.splits)

text \<open>
  C9.  When \<^verbatim>\<open>cache_download_alt\<close> returns a non-zero code, the thread keeps that code
  in its \<^verbatim>\<open>error\<close>, destroys the table it created, with everything the traversals
  put there, and leaves its \<^verbatim>\<open>db\<close> \<^verbatim>\<open>NULL\<close>: the heap has no live table that
  was not alive before.
\<close>

theorem failed_worker_hands_nothing:
  assumes "tal_init (parser env) (thr_tal_file thread) = Inr t"
    and "cache_download_alt env (cache t) (uris t) (handle_tal_uri_cb env fuel t) (empty_table env)
           = Some (Returned error, tbl)"
    and "error \<noteq> 0" and "thr_db thread = None"
  shows "\<exists>thread' h'. do_file_validation env fuel thread h = Some (Returned (thread', h'))
           \<and> thread' = thread\<lparr>thr_error := error\<rparr> \<and> thr_db thread' = None
           \<and> content h' (next_ref h) = tbl \<and> next_ref h \<notin> live h'
           \<and> live h' = live h - {next_ref h}"
  using assms
  by (simp add: do_file_validation_def db_table_create_def db_table_destroy_def Let_def)

theorem failed_worker_hands_nothing_witness:
  "\<exists>h'. do_file_validation (example_worker_env 7) 5
            (new_validation_thread 1 ''/etc/tals/arin.tal'') empty_heap
          = Some (Returned (\<lparr>thr_pid = 1, thr_tal_file = ''/etc/tals/arin.tal'', thr_db = None,
                              thr_error = - 22\<rparr>, h'))
        \<and> content h' 0 = [''AS64496 192.0.2.0/24'', ''AS64496 192.0.2.0/24'']
        \<and> live h' = {}"
proof -
  let ?env = "example_worker_env 7"
  let ?t = "\<lparr>file_name = ''arin.tal'',
             uris = [\<lparr>uri_tal = ''arin.tal'', uri_kind = UT_RSYNC,
                      uri_global = ''rsync://rpki.example.net/ta.cer''\<rparr>,
                     \<lparr>uri_tal = ''arin.tal'', uri_kind = UT_HTTPS,
                      uri_global = ''https://rpki.example.net/ta.cer''\<rparr>],
             spki = [1, 2, 3], cache = Some (Cache ''arin.tal'')\<rparr>"
  have a: "tal_init (parser ?env) (thr_tal_file (new_validation_thread 1 ''/etc/tals/arin.tal''))
      = Inr ?t"
    by code_simp
  have b: "cache_download_alt ?env (cache ?t) (uris ?t) (handle_tal_uri_cb ?env 5 ?t)
      (empty_table ?env)
      = Some (Returned (- 22), [''AS64496 192.0.2.0/24'', ''AS64496 192.0.2.0/24''])"
    by code_simp
  have c: "thr_db (new_validation_thread 1 ''/etc/tals/arin.tal'') = None"
    by (simp add: new_validation_thread_def)
  from failed_worker_hands_nothing [OF a b _ c, of empty_heap]
  show ?thesis
    by (auto simp: new_validation_thread_def empty_heap_def EINTR_def)
qed

subsection \<open>The dispatcher\<close>


lemma join_thread_cases:
  "join_thread env t s =
     (if thr_error t \<noteq> 0 then
        s\<lparr>js_joined := js_joined s @ [thr_pid t], js_error := thr_error t,
          js_heap := db_table_destroy (js_heap s) (thr_db t)\<rparr>
      else if js_error s \<noteq> 0 then
        s\<lparr>js_joined := js_joined s @ [thr_pid t],
          js_heap := db_table_destroy (js_heap s) (thr_db t)\<rparr>
      else (case js_db s of
              None \<Rightarrow> s\<lparr>js_joined := js_joined s @ [thr_pid t], js_db := thr_db t\<rparr>
            | Some db \<Rightarrow>
                s\<lparr>js_joined := js_joined s @ [thr_pid t],
                  js_error := fst (db_table_join env (content (js_heap s) db)
                                     (map_option (content (js_heap s)) (thr_db t))),
                  js_heap := db_table_destroy
                    ((js_heap s)\<lparr>content := (content (js_heap s))
                       (db := snd (db_table_join env (content (js_heap s) db)
                                     (map_option (content (js_heap s)) (thr_db t))))\<rparr>)
                    (thr_db t)\<rparr>))"
  by (simp add: join_thread_def Let_def split_beta thread_destroy_def db_table_destroy_def
      split: option.split)

lemma join_thread_joined: "js_joined (join_thread env t s) = js_joined s @ [thr_pid t]"
  by (simp add: join_thread_cases split: option.split)

lemma join_thread_error:
  "js_error s \<noteq> 0 \<or> thr_error t \<noteq> 0 \<Longrightarrow> js_error (join_thread env t s) \<noteq> 0"
  by (auto simp: join_thread_cases)

lemma join_thread_live: "live (js_heap (join_thread env t s)) \<subseteq> live (js_heap s)"
  by (auto simp: join_thread_cases db_table_destroy_def split: option.splits)

lemma join_thread_own_table:
  "thr_db t = Some p \<Longrightarrow>
     p \<notin> live (js_heap (join_thread env t s)) \<or> js_db (join_thread env t s) = Some p"
  by (auto simp: join_thread_cases db_table_destroy_def split: option.splits)

lemma join_thread_keeps_db: "js_db s = Some d \<Longrightarrow> js_db (join_thread env t s) = Some d"
  by (simp add: join_thread_cases)

lemma wait_for_all_failure:
  assumes "\<forall>t\<in>set ts. pthread_join env (thr_pid t) = 0"
  shows "\<exists>s'. wait_for_all env ts s = Returned s'
           \<and> js_joined s' = js_joined s @ map thr_pid ts
           \<and> (js_error s \<noteq> 0 \<or> (\<exists>t\<in>set ts. thr_error t \<noteq> 0) \<longrightarrow> js_error s' \<noteq> 0)
           \<and> (\<forall>t\<in>set ts. \<forall>p. thr_db t = Some p \<longrightarrow> p \<notin> live (js_heap s') \<or> js_db s' = Some p)
           \<and> live (js_heap s') \<subseteq> live (js_heap s)
           \<and> (\<forall>d. js_db s = Some d \<longrightarrow> js_db s' = Some d)"
  using assms
proof (induction ts arbitrary: s)
  case Nil
  then show ?case by simp
next
  case (Cons t ts)
  let ?s4 = "join_thread env t s"
  have unfold: "wait_for_all env (t # ts) s = wait_for_all env ts ?s4"
    using Cons.prems by simp
  have "\<forall>t\<in>set ts. pthread_join env (thr_pid t) = 0"
    using Cons.prems by simp
  from Cons.IH [OF this, of ?s4] obtain s' where s':
    "wait_for_all env ts ?s4 = Returned s'"
    "js_joined s' = js_joined ?s4 @ map thr_pid ts"
    "js_error ?s4 \<noteq> 0 \<or> (\<exists>t\<in>set ts. thr_error t \<noteq> 0) \<longrightarrow> js_error s' \<noteq> 0"
    "\<forall>t\<in>set ts. \<forall>p. thr_db t = Some p \<longrightarrow> p \<notin> live (js_heap s') \<or> js_db s' = Some p"
    "live (js_heap s') \<subseteq> live (js_heap ?s4)"
    "\<forall>d. js_db ?s4 = Some d \<longrightarrow> js_db s' = Some d"
    by blast
  have 1: "js_joined s' = js_joined s @ map thr_pid (t # ts)"
    using s'(2) by (simp add: join_thread_joined)
  have 2: "js_error s \<noteq> 0 \<or> (\<exists>t\<in>set (t # ts). thr_error t \<noteq> 0) \<longrightarrow> js_error s' \<noteq> 0"
    using s'(3) join_thread_error [of s t env] by auto
  have 3: "\<forall>u\<in>set (t # ts). \<forall>p. thr_db u = Some p \<longrightarrow>
      p \<notin> live (js_heap s') \<or> js_db s' = Some p"
  proof (intro ballI allI impI)
    fix u p assume u: "u \<in> set (t # ts)" "thr_db u = Some p"
    show "p \<notin> live (js_heap s') \<or> js_db s' = Some p"
    proof (cases "u = t")
      case True
      with u(2) join_thread_own_table [of t p env s] s'(5,6) show ?thesis by auto
    next
      case False
      with u s'(4) show ?thesis by auto
    qed
  qed
  have 4: "live (js_heap s') \<subseteq> live (js_heap s)"
    using s'(5) join_thread_live [of env t s] by blast
  have 5: "\<forall>d. js_db s = Some d \<longrightarrow> js_db s' = Some d"
    using s'(6) join_thread_keeps_db [of s _ env t] by blast
  show ?case
    unfolding unfold using s'(1) 1 2 3 4 5 by blast
qed

lemma wait_for_all_discarding:
  assumes "\<forall>t\<in>set ts. pthread_join env (thr_pid t) = 0 \<and> thr_error t = 0"
    and "map thr_db ts = map Some ps" and "js_error s \<noteq> 0"
  shows "\<exists>s'. wait_for_all env ts s = Returned s'
           \<and> js_db s' = js_db s \<and> js_error s' = js_error s
           \<and> js_joined s' = js_joined s @ map thr_pid ts
           \<and> content (js_heap s') = content (js_heap s)
           \<and> live (js_heap s') = live (js_heap s) - set ps"
  using assms
proof (induction ts arbitrary: s ps)
  case Nil
  then show ?case by simp
next
  case (Cons t ts)
  from Cons.prems(2) obtain p ps' where ps: "ps = p # ps'" "thr_db t = Some p"
      "map thr_db ts = map Some ps'"
    by (cases ps) auto
  let ?s4 = "join_thread env t s"
  have t0: "thr_error t = 0" and pj: "pthread_join env (thr_pid t) = 0"
    using Cons.prems(1) by simp_all
  have s4: "?s4 = s\<lparr>js_joined := js_joined s @ [thr_pid t],
      js_heap := db_table_destroy (js_heap s) (Some p)\<rparr>"
    using t0 Cons.prems(3) ps(2) by (simp add: join_thread_cases)
  have "\<forall>t\<in>set ts. pthread_join env (thr_pid t) = 0 \<and> thr_error t = 0"
    using Cons.prems(1) by simp
  moreover have "js_error ?s4 \<noteq> 0"
    using Cons.prems(3) by (simp add: s4)
  ultimately obtain s' where s': "wait_for_all env ts ?s4 = Returned s'"
      "js_db s' = js_db ?s4" "js_error s' = js_error ?s4"
      "js_joined s' = js_joined ?s4 @ map thr_pid ts"
      "content (js_heap s') = content (js_heap ?s4)"
      "live (js_heap s') = live (js_heap ?s4) - set ps'"
    using Cons.IH [OF _ ps(3), of ?s4] by blast
  have "wait_for_all env (t # ts) s = Returned s'"
    using pj s'(1) by simp
  moreover have "js_joined s' = js_joined s @ map thr_pid (t # ts)"
    using s'(4) by (simp add: s4)
  moreover have "live (js_heap s') = live (js_heap s) - set ps"
    using s'(6) by (auto simp: s4 ps(1) db_table_destroy_def)
  moreover have "js_db s' = js_db s" "js_error s' = js_error s"
      "content (js_heap s') = content (js_heap s)"
    using s'(2,3,5) by (simp_all add: s4 db_table_destroy_def)
  ultimately show ?case
    by blast
qed

lemma join_all_step:
  "join_all env acc (tbl # tbls) =
     (if fst (db_table_join env acc (Some tbl)) \<noteq> 0 then db_table_join env acc (Some tbl)
      else join_all env (snd (db_table_join env acc (Some tbl))) tbls)"
  by (simp add: split_beta Let_def)

lemma wait_for_all_joined:
  assumes "\<forall>t\<in>set ts. pthread_join env (thr_pid t) = 0 \<and> thr_error t = 0"
    and "map thr_db ts = map Some ps" and "d \<notin> set ps"
    and "js_db s = Some d" and "js_error s = 0"
  shows "\<exists>s'. wait_for_all env ts s = Returned s'
           \<and> js_db s' = Some d
           \<and> js_error s' = fst (join_all env (content (js_heap s) d) (map (content (js_heap s)) ps))
           \<and> js_joined s' = js_joined s @ map thr_pid ts
           \<and> content (js_heap s') d
               = snd (join_all env (content (js_heap s) d) (map (content (js_heap s)) ps))
           \<and> live (js_heap s') = live (js_heap s) - set ps"
  using assms
proof (induction ts arbitrary: s ps)
  case Nil
  then show ?case by simp
next
  case (Cons t ts)
  from Cons.prems(2) obtain p ps' where ps: "ps = p # ps'" "thr_db t = Some p"
      "map thr_db ts = map Some ps'"
    by (cases ps) auto
  let ?h = "js_heap s"
  let ?j = "db_table_join env (content ?h d) (Some (content ?h p))"
  let ?s4 = "join_thread env t s"
  have t0: "thr_error t = 0" and pj: "pthread_join env (thr_pid t) = 0"
    using Cons.prems(1) by simp_all
  have s4: "?s4 = s\<lparr>js_joined := js_joined s @ [thr_pid t], js_error := fst ?j,
      js_heap := db_table_destroy (?h\<lparr>content := (content ?h)(d := snd ?j)\<rparr>) (Some p)\<rparr>"
    using t0 Cons.prems(4,5) ps(2) by (simp add: join_thread_cases)
  have dp: "d \<noteq> p" "d \<notin> set ps'"
    using Cons.prems(3) ps(1) by auto
  have c: "content (js_heap ?s4) d = snd ?j"
    by (simp add: s4 db_table_destroy_def)
  have m: "map (content (js_heap ?s4)) ps' = map (content ?h) ps'"
    using dp(2) by (auto simp: s4 db_table_destroy_def)
  have ja: "join_all env (content ?h d) (map (content ?h) ps) =
      (if fst ?j \<noteq> 0 then ?j else join_all env (snd ?j) (map (content ?h) ps'))"
    by (simp only: ps(1) list.map join_all_step)
  have rest: "\<forall>t\<in>set ts. pthread_join env (thr_pid t) = 0 \<and> thr_error t = 0"
    using Cons.prems(1) by simp
  have db4: "js_db ?s4 = Some d"
    using Cons.prems(4) by (simp add: s4)
  have "\<exists>s'. wait_for_all env ts ?s4 = Returned s'
      \<and> js_db s' = Some d
      \<and> js_error s' = fst (join_all env (content ?h d) (map (content ?h) ps))
      \<and> js_joined s' = js_joined ?s4 @ map thr_pid ts
      \<and> content (js_heap s') d = snd (join_all env (content ?h d) (map (content ?h) ps))
      \<and> live (js_heap s') = live (js_heap ?s4) - set ps'"
  proof (cases "fst ?j = 0")
    case True
    then have "js_error ?s4 = 0"
      by (simp add: s4)
    from Cons.IH [OF rest ps(3) dp(2) db4 this] show ?thesis
      using True by (simp only: c m ja) simp
  next
    case False
    then have "js_error ?s4 \<noteq> 0"
      by (simp add: s4)
    from wait_for_all_discarding [OF rest ps(3) this] obtain s' where s':
      "wait_for_all env ts ?s4 = Returned s'"
      "js_db s' = js_db ?s4" "js_error s' = js_error ?s4"
      "js_joined s' = js_joined ?s4 @ map thr_pid ts"
      "content (js_heap s') = content (js_heap ?s4)"
      "live (js_heap s') = live (js_heap ?s4) - set ps'"
      by blast
    have "js_error s' = fst ?j"
      using s'(3) by (simp add: s4)
    moreover have "content (js_heap s') d = snd ?j"
      using s'(5) c by simp
    ultimately show ?thesis
      using False s'(1,2,4,6) db4 by (simp add: ja)
  qed
  then obtain s' where s': "wait_for_all env ts ?s4 = Returned s'"
      "js_db s' = Some d"
      "js_error s' = fst (join_all env (content ?h d) (map (content ?h) ps))"
      "js_joined s' = js_joined ?s4 @ map thr_pid ts"
      "content (js_heap s') d = snd (join_all env (content ?h d) (map (content ?h) ps))"
      "live (js_heap s') = live (js_heap ?s4) - set ps'"
    by blast
  have "wait_for_all env (t # ts) s = Returned s'"
    using pj s'(1) by simp
  moreover have "js_joined s' = js_joined s @ map thr_pid (t # ts)"
    using s'(4) by (simp add: s4)
  moreover have "live (js_heap s') = live (js_heap s) - set ps"
    using s'(6) by (auto simp: s4 ps(1) db_table_destroy_def)
  ultimately show ?case
    using s'(2,3,5) by blast
qed

text \<open>
  C1, as the code has it.  Let every thread have been spawned (\<^verbatim>\<open>foreach_file\<close> returned
  0) and let every \<^verbatim>\<open>pthread_join\<close> return 0.  If some thread ended with a non-zero
  error code, \<^verbatim>\<open>perform_standalone_validation\<close> still joins every thread of the list, in
  order, returns \<^verbatim>\<open>NULL\<close>, and leaves no table of any thread alive: each was destroyed
  with its thread or, once taken over as the accumulated table, at the end.  If every
  thread ended with error 0 and a table of its own (the one \<^verbatim>\<open>do_file_validation\<close>
  created for it), every thread is joined and the first
  thread's table takes in the others by repeated \<^verbatim>\<open>db_table_join\<close> (the second, then
  the third, ...): when every join returns 0 the function returns that table, whose
  content is the result of the repeated join, and has destroyed the others; when a join
  fails the function returns \<^verbatim>\<open>NULL\<close> and has destroyed every table, the first one
  included.  With no thread at all there is no table, and the result is \<^verbatim>\<open>NULL\<close>.
\<close>

theorem dispatcher_all_or_nothing:
  assumes "\<forall>t\<in>set threads. pthread_join env (thr_pid t) = 0"
  shows "((\<exists>t\<in>set threads. thr_error t \<noteq> 0) \<longrightarrow>
            (\<exists>h'. perform_standalone_validation env (0, threads) h
                     = Returned (None, h', map thr_pid threads)
               \<and> (\<forall>t\<in>set threads. \<forall>p. thr_db t = Some p \<longrightarrow> p \<notin> live h')
               \<and> live h' \<subseteq> live h))
       \<and> ((\<forall>t\<in>set threads. thr_error t = 0) \<and> map thr_db threads = map Some (d # ps)
            \<and> d \<notin> set ps \<longrightarrow>
            (\<exists>h'. perform_standalone_validation env (0, threads) h
                     = Returned (if fst (join_all env (content h d) (map (content h) ps)) = 0
                                 then Some d else None, h', map thr_pid threads)
               \<and> content h' d = snd (join_all env (content h d) (map (content h) ps))
               \<and> live h' = (if fst (join_all env (content h d) (map (content h) ps)) = 0
                             then live h - set ps else live h - set (d # ps))))
       \<and> perform_standalone_validation env (0, []) h = Returned (None, h, [])"
proof (intro conjI impI)
  show "perform_standalone_validation env (0, []) h = Returned (None, h, [])"
    by (simp add: perform_standalone_validation_def)
next
  let ?s0 = "\<lparr>js_db = None, js_error = 0, js_heap = h, js_joined = []\<rparr>"
  assume bad: "\<exists>t\<in>set threads. thr_error t \<noteq> 0"
  from wait_for_all_failure [OF assms, of ?s0] obtain s' where s':
    "wait_for_all env threads ?s0 = Returned s'"
    "js_joined s' = map thr_pid threads"
    "js_error s' \<noteq> 0"
    "\<forall>t\<in>set threads. \<forall>p. thr_db t = Some p \<longrightarrow> p \<notin> live (js_heap s') \<or> js_db s' = Some p"
    "live (js_heap s') \<subseteq> live h"
    using bad by auto
  let ?h' = "db_table_destroy (js_heap s') (js_db s')"
  have "perform_standalone_validation env (0, threads) h
      = Returned (None, ?h', map thr_pid threads)"
    using s'(1,2,3) by (simp add: perform_standalone_validation_def)
  moreover have "\<forall>t\<in>set threads. \<forall>p. thr_db t = Some p \<longrightarrow> p \<notin> live ?h'"
    using s'(4) by (auto simp: db_table_destroy_def split: option.splits)
  moreover have "live ?h' \<subseteq> live h"
    using s'(5) by (auto simp: db_table_destroy_def split: option.splits)
  ultimately show "\<exists>h'. perform_standalone_validation env (0, threads) h
        = Returned (None, h', map thr_pid threads)
      \<and> (\<forall>t\<in>set threads. \<forall>p. thr_db t = Some p \<longrightarrow> p \<notin> live h')
      \<and> live h' \<subseteq> live h"
    by blast
next
  let ?s0 = "\<lparr>js_db = None, js_error = 0, js_heap = h, js_joined = []\<rparr>"
  let ?J = "join_all env (content h d) (map (content h) ps)"
  assume ok: "(\<forall>t\<in>set threads. thr_error t = 0) \<and> map thr_db threads = map Some (d # ps)
      \<and> d \<notin> set ps"
  then obtain t ts where ts: "threads = t # ts" "thr_db t = Some d"
      "map thr_db ts = map Some ps"
    by (cases threads) auto
  let ?s1 = "join_thread env t ?s0"
  have s1: "?s1 = \<lparr>js_db = Some d, js_error = 0, js_heap = h, js_joined = [thr_pid t]\<rparr>"
    using ok ts(1,2) by (simp add: join_thread_cases)
  have "\<forall>u\<in>set ts. pthread_join env (thr_pid u) = 0 \<and> thr_error u = 0"
    using assms ok ts(1) by simp
  from wait_for_all_joined [OF this ts(3), of d ?s1] obtain s' where s':
    "wait_for_all env ts ?s1 = Returned s'" "js_db s' = Some d" "js_error s' = fst ?J"
    "js_joined s' = thr_pid t # map thr_pid ts"
    "content (js_heap s') d = snd ?J" "live (js_heap s') = live h - set ps"
    using ok by (auto simp: s1)
  have w: "wait_for_all env threads ?s0 = Returned s'"
    using assms s'(1) by (simp add: ts(1))
  let ?h' = "if fst ?J = 0 then js_heap s' else db_table_destroy (js_heap s') (Some d)"
  have "perform_standalone_validation env (0, threads) h
      = Returned (if fst ?J = 0 then Some d else None, ?h', map thr_pid threads)"
    using w s'(2,3,4) by (simp add: perform_standalone_validation_def ts(1))
  moreover have "content ?h' d = snd ?J"
    using s'(5) by (simp add: db_table_destroy_def)
  moreover have "live ?h' = (if fst ?J = 0 then live h - set ps else live h - set (d # ps))"
    using s'(6) by (auto simp: db_table_destroy_def)
  ultimately show "\<exists>h'. perform_standalone_validation env (0, threads) h
        = Returned (if fst ?J = 0 then Some d else None, h', map thr_pid threads)
      \<and> content h' d = snd ?J
      \<and> live h' = (if fst ?J = 0 then live h - set ps else live h - set (d # ps))"
    by blast
qed

theorem dispatcher_all_or_nothing_witness:
  "(\<exists>h'. perform_standalone_validation append_env
            (0, [finished_thread 3 (Some 2) 0, finished_thread 2 None (- 22),
                 finished_thread 1 (Some 0) 0]) three_tables
          = Returned (None, h', [3, 2, 1])
        \<and> 2 \<notin> live h' \<and> 0 \<notin> live h')
   \<and> (\<exists>h'. perform_standalone_validation append_env
            (0, [finished_thread 3 (Some 2) 0, finished_thread 2 (Some 1) 0,
                 finished_thread 1 (Some 0) 0]) three_tables
          = Returned (Some 2, h', [3, 2, 1])
        \<and> content h' 2 = [''AS64498 203.0.113.0/24'', ''AS64497 198.51.100.0/24'',
                           ''AS64496 192.0.2.0/24'']
        \<and> live h' = {2})
   \<and> (\<exists>h'. perform_standalone_validation failing_join_env
            (0, [finished_thread 3 (Some 2) 0, finished_thread 2 (Some 1) 0,
                 finished_thread 1 (Some 0) 0]) three_tables
          = Returned (None, h', [3, 2, 1])
        \<and> live h' = {})"
  using dispatcher_all_or_nothing [where threads = "[finished_thread 3 (Some 2) 0,
        finished_thread 2 None (- 22), finished_thread 1 (Some 0) 0]" and env = append_env
        and h = three_tables]
    dispatcher_all_or_nothing [where threads = "[finished_thread 3 (Some 2) 0,
        finished_thread 2 (Some 1) 0, finished_thread 1 (Some 0) 0]" and env = append_env
        and h = three_tables and d = 2 and ps = "[1, 0]"]
    dispatcher_all_or_nothing [where threads = "[finished_thread 3 (Some 2) 0,
        finished_thread 2 (Some 1) 0, finished_thread 1 (Some 0) 0]" and env = failing_join_env
        and h = three_tables and d = 2 and ps = "[1, 0]"]
  by (auto simp: append_env_def failing_join_env_def finished_thread_def three_tables_def)

text \<open>
  C1 as the specification states it does not hold without these conditions.  Three
  workers that all succeed, with a \<^verbatim>\<open>db_table_join\<close> that fails: the result is \<^verbatim>\<open>NULL\<close>
  and every table is destroyed, not the joined table.  A failed worker in a list whose
  spawning failed (\<^verbatim>\<open>foreach_file\<close> returned 11): the threads are destroyed and none is
  joined.  A failed worker and a \<^verbatim>\<open>pthread_join\<close> that fails: the function does not
  return \<^verbatim>\<open>NULL\<close>, the process ends in \<^verbatim>\<open>pr_crit\<close>.
\<close>

theorem dispatcher_unstated_conditions_counterexample:
  "(\<exists>h'. perform_standalone_validation failing_join_env
            (0, [finished_thread 3 (Some 2) 0, finished_thread 2 (Some 1) 0,
                 finished_thread 1 (Some 0) 0]) three_tables
          = Returned (None, h', [3, 2, 1])
        \<and> live h' = {})
   \<and> (\<exists>h'. perform_standalone_validation append_env
            (11, [finished_thread 2 None (- 22), finished_thread 1 (Some 0) 0]) three_tables
          = Returned (None, h', [])
        \<and> live h' = {1, 2})
   \<and> perform_standalone_validation failing_pthread_env
        (0, [finished_thread 3 (Some 2) 0, finished_thread 2 None (- 22),
             finished_thread 1 (Some 0) 0]) three_tables
       = Critical ''pthread_join() threw an error''"
  by (auto simp: perform_standalone_validation_def join_thread_cases thread_destroy_def
      db_table_destroy_def append_env_def failing_join_env_def failing_pthread_env_def
      finished_thread_def three_tables_def)

end
